theory Spec2Isabelle
  imports Main "HOL-Library.Word"
begin

section \<open>JavaScript values\<close>

text \<open>
  A JavaScript string is a sequence of 16-bit code units; \<open>length\<close> on the model is
  the \<open>.length\<close> of the source. String literals of the source are written
  \<open>js ''...''\<close>.
\<close>

type_synonym jschar = "16 word"
type_synonym jsstring = "jschar list"
type_synonym bytes = "8 word list"

definition js :: "string \<Rightarrow> jsstring" where
  "js s = map of_char s"

text \<open>
  The values that travel through \<open>res.json\<close>. An object is an association list in the
  order in which the source writes its keys.
\<close>

datatype json =
    JNull
  | JBool bool
  | JNum int
  | JStr jsstring
  | JObj "(jsstring \<times> json) list"

definition field :: "json \<Rightarrow> string \<Rightarrow> json option" where
  "field j k = (case j of JObj kvs \<Rightarrow> map_of kvs (js k) | _ \<Rightarrow> None)"

text \<open>
  Request-body fields are strings that may be missing. \<open>!x\<close> and \<open>x || d\<close> test
  truthiness: a missing value and the empty string are both falsy.
\<close>

definition truthy :: "jsstring option \<Rightarrow> bool" where
  "truthy v = (case v of None \<Rightarrow> False | Some s \<Rightarrow> s \<noteq> [])"

definition or_default :: "jsstring option \<Rightarrow> jsstring \<Rightarrow> jsstring" where
  "or_default v d = (case v of None \<Rightarrow> d | Some s \<Rightarrow> if s = [] then d else s)"

record response =
  status :: nat
  body :: json

text \<open>
  What a request does to the outside world, in the order in which it does it: a file
  written to the uploads directory, a file removed, a URL fetched, a response sent.
  Informational \<open>console.log\<close> output is left out; \<open>console.error\<close> is kept with
  its label and the message of the error it prints.
\<close>

datatype effect =
    ConsoleError string jsstring
  | Stored jsstring
  | Unlinked jsstring
  | Fetched jsstring
  | Sent response

text \<open>The responses among the effects, in the order in which they were sent.\<close>

fun sent_responses :: "effect list \<Rightarrow> response list" where
  "sent_responses [] = []"
| "sent_responses (Sent r # es) = r # sent_responses es"
| "sent_responses (ConsoleError l m # es) = sent_responses es"
| "sent_responses (Stored p # es) = sent_responses es"
| "sent_responses (Unlinked p # es) = sent_responses es"
| "sent_responses (Fetched u # es) = sent_responses es"

definition res_json :: "nat \<Rightarrow> json \<Rightarrow> effect" where
  "res_json code obj = Sent \<lparr>status = code, body = obj\<rparr>"

section \<open>The environment\<close>

text \<open>
  The file system as \<open>fs.existsSync\<close>, \<open>fs.readFileSync\<close> and \<open>fs.unlinkSync\<close>
  see it: the files that exist with their contents, and the paths on which a read or a
  removal throws (permissions, a busy file), with the message of the error thrown.
\<close>

record filesystem =
  files :: "jsstring \<rightharpoonup> bytes"
  read_error :: "jsstring \<rightharpoonup> jsstring"
  unlink_error :: "jsstring \<rightharpoonup> jsstring"

definition existsSync :: "filesystem \<Rightarrow> jsstring \<Rightarrow> bool" where
  "existsSync fs p = (files fs p \<noteq> None)"

definition readFileSync :: "filesystem \<Rightarrow> jsstring \<Rightarrow> jsstring + bytes" where
  "readFileSync fs p =
     (case files fs p of
        None \<Rightarrow> Inl (js ''ENOENT: no such file or directory'')
      | Some b \<Rightarrow> (case read_error fs p of Some msg \<Rightarrow> Inl msg | None \<Rightarrow> Inr b))"

definition unlinkSync :: "filesystem \<Rightarrow> jsstring \<Rightarrow> jsstring + filesystem" where
  "unlinkSync fs p =
     (case files fs p of
        None \<Rightarrow> Inl (js ''ENOENT: no such file or directory'')
      | Some b \<Rightarrow>
          (case unlink_error fs p of
             Some msg \<Rightarrow> Inl msg
           | None \<Rightarrow> Inr (fs\<lparr>files := (files fs)(p := None)\<rparr>)))"

text \<open>The output of the PDF parser (\<open>pdf-parse\<close>), an external collaborator.\<close>

record pdf_data =
  pdf_text :: jsstring
  numpages :: nat
  pdf_info :: "(jsstring \<times> json) list option"
  pdf_version :: "jsstring option"

text \<open>
  The outcome of \<open>fetch\<close>: the promise rejects with an error message, or resolves to
  a response with a status code, a status text and a body that \<open>arrayBuffer()\<close>
  delivers or fails to deliver.
\<close>

datatype fetch_result =
    FetchRejected jsstring
  | FetchResponse nat jsstring "jsstring + bytes"

text \<open>
  Everything the server reads from outside its own code: \<open>path.extname\<close>, the uploads
  directory, the suffix built from \<open>Date.now()\<close> and \<open>Math.random()\<close>, the clock
  behind \<open>new Date().toISOString()\<close>, the parser, \<open>fetch\<close>, and the hex digest
  of \<open>crypto.createHmac("sha512", secret)\<close> over the data.
\<close>

record env =
  extname :: "jsstring \<Rightarrow> jsstring"
  uploadsDir :: jsstring
  uniqueSuffix :: jsstring
  now :: jsstring
  pdfParse :: "bytes \<Rightarrow> jsstring + pdf_data"
  fetch :: "jsstring \<Rightarrow> fetch_result"
  hmac_sha512_hex :: "jsstring \<Rightarrow> jsstring \<Rightarrow> jsstring"

text \<open>
  \<open>path.extname\<close> as Node computes it on a POSIX system: the scan runs from the end of
  the path to the last slash that is not trailing, and the extension runs from the last
  dot of that component to its end, unless the component has no dot, starts with its
  only dot, or is \<open>..\<close>. Which implementation runs depends on the platform, so the
  server takes \<open>extname\<close> from its environment; this one is the environment of the
  sample requests.
\<close>

record extname_scan =
  startDot :: int
  startPart :: int
  end_index :: int
  matchedSlash :: bool
  preDotState :: int

fun extname_loop :: "jsstring \<Rightarrow> nat \<Rightarrow> extname_scan \<Rightarrow> extname_scan" where
  "extname_loop name 0 st = st"
| "extname_loop name (Suc i) st =
     (let code = name ! i in
      if code = 0x2F then
        (if \<not> matchedSlash st then st\<lparr>startPart := int i + 1\<rparr>
         else extname_loop name i st)
      else
        (let st1 = (if end_index st = - 1
                    then st\<lparr>matchedSlash := False, end_index := int i + 1\<rparr>
                    else st);
             st2 = (if code = 0x2E then
                      (if startDot st1 = - 1 then st1\<lparr>startDot := int i\<rparr>
                       else if preDotState st1 \<noteq> 1 then st1\<lparr>preDotState := 1\<rparr>
                       else st1)
                    else if startDot st1 \<noteq> - 1 then st1\<lparr>preDotState := - 1\<rparr>
                    else st1)
         in extname_loop name i st2))"

definition posix_extname :: "jsstring \<Rightarrow> jsstring" where
  "posix_extname name =
     (let st = extname_loop name (length name)
                 \<lparr>startDot = - 1, startPart = 0, end_index = - 1, matchedSlash = True,
                  preDotState = 0\<rparr>
      in if startDot st = - 1 \<or> end_index st = - 1 \<or> preDotState st = 0 \<or>
            (preDotState st = 1 \<and> startDot st = end_index st - 1 \<and>
             startDot st = startPart st + 1)
         then []
         else drop (nat (startDot st)) (take (nat (end_index st)) name))"

section \<open>Word count\<close>

text \<open>
  The class \<open>\s\<close> of a JavaScript regular expression: the white space and line
  terminator code points of ECMAScript.
\<close>

definition is_space :: "jschar \<Rightarrow> bool" where
  "is_space c \<longleftrightarrow>
     c = 0x0009 \<or> c = 0x000A \<or> c = 0x000B \<or> c = 0x000C \<or> c = 0x000D \<or>
     c = 0x0020 \<or> c = 0x00A0 \<or> c = 0x1680 \<or> (0x2000 \<le> c \<and> c \<le> 0x200A) \<or>
     c = 0x2028 \<or> c = 0x2029 \<or> c = 0x202F \<or> c = 0x205F \<or> c = 0x3000 \<or>
     c = 0xFEFF"

text \<open>
  \<open>text.split(/\s+/)\<close>: the scan collects the current piece until a white space
  character is met, closes the piece there, skips the whole run, and goes on; the piece
  open at the end of the string is closed there. The empty string gives one empty piece.
\<close>

function split_from :: "jsstring \<Rightarrow> jsstring \<Rightarrow> jsstring list" where
  "split_from piece [] = [piece]"
| "split_from piece (c # cs) =
     (if is_space c then piece # split_from [] (dropWhile is_space cs)
      else split_from (piece @ [c]) cs)"
  by pat_completeness auto
termination
  by (relation "measure (\<lambda>(piece, s). length s)")
     (auto simp: length_dropWhile_le less_Suc_eq_le)

definition split_whitespace :: "jsstring \<Rightarrow> jsstring list" where
  "split_whitespace s = split_from [] s"

definition wordCount :: "jsstring \<Rightarrow> nat" where
  "wordCount s = length (filter (\<lambda>word. length word > 0) (split_whitespace s))"

text \<open>
  The specification's reading of the same number: the maximal runs of characters that
  are not white space, from left to right.
\<close>

function ws_tokens :: "jsstring \<Rightarrow> jsstring list" where
  "ws_tokens [] = []"
| "ws_tokens (c # cs) =
     (if is_space c then ws_tokens cs
      else takeWhile (\<lambda>x. \<not> is_space x) (c # cs) #
           ws_tokens (dropWhile (\<lambda>x. \<not> is_space x) cs))"
  by pat_completeness auto
termination
  by (relation "measure length") (auto simp: length_dropWhile_le less_Suc_eq_le)

definition counts_consistent :: "json \<Rightarrow> bool" where
  "counts_consistent b =
     (case field b ''text'' of
        Some (JStr t) \<Rightarrow>
          field b ''textLength'' = Some (JNum (int (length t))) \<and>
          field b ''wordCount'' = Some (JNum (int (length (ws_tokens t))))
      | _ \<Rightarrow> False)"

section \<open>Cleaning up uploaded files\<close>

definition cleanupFile :: "filesystem \<Rightarrow> jsstring \<Rightarrow> filesystem \<times> effect list" where
  "cleanupFile fs filePath =
     (if existsSync fs filePath then
        (case unlinkSync fs filePath of
           Inr fs' \<Rightarrow> (fs', [Unlinked filePath])
         | Inl msg \<Rightarrow> (fs, [ConsoleError ''Error cleaning up file:'' msg]))
      else (fs, []))"

section \<open>Uploads\<close>

text \<open>
  A file part of a multipart request as the upload middleware meets it, and the
  \<open>req.file\<close> it hands to the handler once the part is stored.
\<close>

record upload_part =
  fieldname :: jsstring
  originalname :: jsstring
  mimetype :: jsstring
  content :: bytes

record file_info =
  file_originalname :: jsstring
  file_size :: nat
  path :: jsstring

datatype js_error =
    MulterError jsstring jsstring
  | Error jsstring

fun error_message :: "js_error \<Rightarrow> jsstring" where
  "error_message (MulterError code msg) = msg"
| "error_message (Error msg) = msg"

text \<open>
  \<open>toLowerCase\<close>, on the letters A to Z only. The source compares the result with
  \<open>.pdf\<close> and nothing else, and no code unit outside A to Z is lower-cased to a
  character of \<open>.pdf\<close>, so the comparison comes out the same.
\<close>

definition toLowerCase :: "jsstring \<Rightarrow> jsstring" where
  "toLowerCase s = map (\<lambda>c. if 0x41 \<le> c \<and> c \<le> 0x5A then c + 0x20 else c) s"

definition storage_filename :: "env \<Rightarrow> upload_part \<Rightarrow> jsstring" where
  "storage_filename e file =
     fieldname file @ js ''-'' @ uniqueSuffix e @ extname e (originalname file)"

definition fileSize_limit :: nat where
  "fileSize_limit = 10 * 1024 * 1024"

text \<open>The \<open>fileFilter\<close> callback: \<open>cb(null, true)\<close> or \<open>cb(new Error(...), false)\<close>.\<close>

definition fileFilter :: "env \<Rightarrow> upload_part \<Rightarrow> js_error + bool" where
  "fileFilter e file =
     (if mimetype file = js ''application/pdf'' \<or>
         toLowerCase (extname e (originalname file)) = js ''.pdf''
      then Inr True
      else Inl (Error (js ''Only PDF files are allowed!'')))"

text \<open>
  \<open>upload.single("pdf")\<close>, the middleware of the multer library as configured above
  (disk storage, the size limit, \<open>fileFilter\<close>); its dispatch is the library's, not
  the server's. It takes the file parts of the request in the order in which they
  arrive, with one file allowed for the field \<open>pdf\<close> and none for any other.
  \<^item> A part without a file name is skipped.
  \<^item> A part whose field is not \<open>pdf\<close>, or a second part of that field, aborts the
    upload with the library's error \<open>LIMIT_UNEXPECTED_FILE\<close>.
  \<^item> Otherwise the part goes through \<open>fileFilter\<close>, whose error, if any, aborts the
    upload.
  \<^item> An accepted part is written to the uploads directory under the name the storage
    gives it, up to \<open>limits.fileSize\<close> bytes; a part that reaches that size is cut
    there and aborts the upload with \<open>LIMIT_FILE_SIZE\<close>.
  \<^item> An aborted upload removes the files it has written (\<open>removeUploadedFiles\<close>,
    through \<open>fs.unlink\<close>); a removal that fails is noted on the error and changes
    nothing else. The error then goes to the error-handling middleware.
\<close>

fun removeUploadedFiles :: "filesystem \<Rightarrow> file_info list \<Rightarrow> filesystem \<times> effect list" where
  "removeUploadedFiles fs [] = (fs, [])"
| "removeUploadedFiles fs (file # uploadedFiles) =
     (case unlinkSync fs (path file) of
        Inl msg \<Rightarrow> removeUploadedFiles fs uploadedFiles
      | Inr fs' \<Rightarrow>
          (let (fs'', removed) = removeUploadedFiles fs' uploadedFiles
           in (fs'', Unlinked (path file) # removed)))"

definition abortWithError ::
  "filesystem \<Rightarrow> file_info list \<Rightarrow> js_error \<Rightarrow>
   filesystem \<times> effect list \<times> (js_error + file_info option)" where
  "abortWithError fs uploadedFiles uploadError =
     (let (fs', removed) = removeUploadedFiles fs uploadedFiles
      in (fs', removed, Inl uploadError))"

fun multer_parts ::
  "env \<Rightarrow> filesystem \<Rightarrow> nat \<Rightarrow> file_info list \<Rightarrow> upload_part list \<Rightarrow>
   filesystem \<times> effect list \<times> (js_error + file_info option)" where
  "multer_parts e fs filesLeft uploadedFiles [] =
     (fs, [], Inr (case uploadedFiles of [] \<Rightarrow> None | file # _ \<Rightarrow> Some file))"
| "multer_parts e fs filesLeft uploadedFiles (p # ps) =
     (if originalname p = [] then multer_parts e fs filesLeft uploadedFiles ps
      else if fieldname p \<noteq> js ''pdf'' \<or> filesLeft = 0
      then abortWithError fs uploadedFiles
             (MulterError (js ''LIMIT_UNEXPECTED_FILE'') (js ''Unexpected field''))
      else
        (case fileFilter e p of
           Inl err \<Rightarrow> abortWithError fs uploadedFiles err
         | Inr False \<Rightarrow> multer_parts e fs (filesLeft - 1) uploadedFiles ps
         | Inr True \<Rightarrow>
             (let finalPath = uploadsDir e @ js ''/'' @ storage_filename e p;
                  written = take fileSize_limit (content p);
                  file = \<lparr>file_originalname = originalname p,
                          file_size = length written,
                          path = finalPath\<rparr>;
                  fs' = fs\<lparr>files := (files fs)(finalPath \<mapsto> written)\<rparr>;
                  (fs'', effects, outcome) =
                    (if fileSize_limit \<le> length (content p)
                     then abortWithError fs' (uploadedFiles @ [file])
                            (MulterError (js ''LIMIT_FILE_SIZE'') (js ''File too large''))
                     else multer_parts e fs' (filesLeft - 1) (uploadedFiles @ [file]) ps)
              in (fs'', Stored finalPath # effects, outcome))))"

definition upload_single ::
  "env \<Rightarrow> filesystem \<Rightarrow> upload_part list \<Rightarrow>
   filesystem \<times> effect list \<times> (js_error + file_info option)" where
  "upload_single e fs parts = multer_parts e fs 1 [] parts"

section \<open>POST /extract-text\<close>

definition extract_text_catch ::
  "filesystem \<Rightarrow> file_info option \<Rightarrow> jsstring \<Rightarrow> filesystem \<times> effect list" where
  \<open>extract_text_catch fs req_file msg =
     (let (fs', cleaned) =
            (case req_file of
               Some file \<Rightarrow> if path file \<noteq> [] then cleanupFile fs (path file) else (fs, [])
             | None \<Rightarrow> (fs, []))
      in (fs', [ConsoleError ''PDF processing error:'' msg] @ cleaned @
               [res_json 500 (JObj
                  [(js ''error'', JStr (js ''Failed to extract text from PDF'')),
                   (js ''message'', JStr msg),
                   (js ''success'', JBool False)])]))\<close>

definition extract_text_result :: "env \<Rightarrow> file_info \<Rightarrow> pdf_data \<Rightarrow> json" where
  "extract_text_result e file pdfData = JObj
     [(js ''success'', JBool True),
      (js ''filename'', JStr (file_originalname file)),
      (js ''fileSize'', JNum (int (file_size file))),
      (js ''text'', JStr (pdf_text pdfData)),
      (js ''metadata'', JObj
         [(js ''pages'', JNum (int (numpages pdfData))),
          (js ''info'', (case pdf_info pdfData of Some d \<Rightarrow> JObj d | None \<Rightarrow> JObj [])),
          (js ''version'', JStr (or_default (pdf_version pdfData) (js ''Unknown'')))]),
      (js ''extractedAt'', JStr (now e)),
      (js ''textLength'', JNum (int (length (pdf_text pdfData)))),
      (js ''wordCount'', JNum (int (wordCount (pdf_text pdfData))))]"

definition extract_text_handler ::
  "env \<Rightarrow> filesystem \<Rightarrow> file_info option \<Rightarrow> filesystem \<times> effect list" where
  \<open>extract_text_handler e fs req_file =
     (case req_file of
        None \<Rightarrow>
          (fs, [res_json 400 (JObj
                  [(js ''error'', JStr (js ''No PDF file uploaded'')),
                   (js ''message'',
                    JStr (js ''Please upload a PDF file using the "pdf" field''))])])
      | Some file \<Rightarrow>
          (let filePath = path file in
           case readFileSync fs filePath of
             Inl msg \<Rightarrow> extract_text_catch fs req_file msg
           | Inr dataBuffer \<Rightarrow>
               (case pdfParse e dataBuffer of
                  Inl msg \<Rightarrow> extract_text_catch fs req_file msg
                | Inr pdfData \<Rightarrow>
                    (let result = extract_text_result e file pdfData;
                         (fs', cleaned) = cleanupFile fs filePath
                     in (fs', cleaned @ [res_json 200 result])))))\<close>

section \<open>Error-handling middleware\<close>

fun instanceof_MulterError :: "js_error \<Rightarrow> bool" where
  "instanceof_MulterError (MulterError code msg) = True"
| "instanceof_MulterError (Error msg) = False"

fun error_code :: "js_error \<Rightarrow> jsstring option" where
  "error_code (MulterError code msg) = Some code"
| "error_code (Error msg) = None"

definition error_middleware :: "js_error \<Rightarrow> effect list" where
  "error_middleware error =
     (if instanceof_MulterError error \<and> error_code error = Some (js ''LIMIT_FILE_SIZE'')
      then [res_json 400 (JObj
              [(js ''error'', JStr (js ''File too large'')),
               (js ''message'', JStr (js ''PDF file size must be less than 10MB''))])]
      else if error_message error = js ''Only PDF files are allowed!''
      then [res_json 400 (JObj
              [(js ''error'', JStr (js ''Invalid file type'')),
               (js ''message'', JStr (js ''Only PDF files are allowed''))])]
      else [ConsoleError ''Unhandled error:'' (error_message error),
            res_json 500 (JObj
              [(js ''error'', JStr (js ''Internal server error'')),
               (js ''message'',
                JStr (js ''Something went wrong processing your request''))])])"

text \<open>The route: the upload middleware, then the handler or the error middleware.\<close>

definition post_extract_text ::
  "env \<Rightarrow> filesystem \<Rightarrow> upload_part list \<Rightarrow> filesystem \<times> effect list" where
  "post_extract_text e fs parts =
     (case upload_single e fs parts of
        (fs', uploading, Inl err) \<Rightarrow> (fs', uploading @ error_middleware err)
      | (fs', uploading, Inr req_file) \<Rightarrow>
          (let (fs'', handling) = extract_text_handler e fs' req_file
           in (fs'', uploading @ handling)))"

section \<open>Google Drive links\<close>

text \<open>
  The character class \<open>[a-zA-Z0-9_-]\<close> and the two literal parts of
  \<open>convertGoogleDriveUrl\<close>.
\<close>

definition is_id_char :: "jschar \<Rightarrow> bool" where
  "is_id_char c \<longleftrightarrow>
     (0x61 \<le> c \<and> c \<le> 0x7A) \<or> (0x41 \<le> c \<and> c \<le> 0x5A) \<or>
     (0x30 \<le> c \<and> c \<le> 0x39) \<or> c = 0x5F \<or> c = 0x2D"

definition drive_prefix :: jsstring where
  "drive_prefix = js ''https://drive.google.com/file/d/''"

definition download_prefix :: jsstring where
  "download_prefix = js ''https://drive.google.com/uc?export=download&id=''"

text \<open>
  \<open>driveRegex\<close> tried at the start of a string: the literal prefix, then the longest
  run of identifier characters, which must not be empty; the run is capture group 1.
\<close>

definition driveRegex_at :: "jsstring \<Rightarrow> jsstring option" where
  "driveRegex_at s =
     (if take (length drive_prefix) s = drive_prefix
      then (let fileId = takeWhile is_id_char (drop (length drive_prefix) s)
            in if fileId = [] then None else Some fileId)
      else None)"

text \<open>\<open>url.match(driveRegex)\<close>: the regular expression is not anchored, the leftmost match wins.\<close>

fun driveRegex_match :: "jsstring \<Rightarrow> jsstring option" where
  "driveRegex_match [] = driveRegex_at []"
| "driveRegex_match (c # cs) =
     (case driveRegex_at (c # cs) of
        Some fileId \<Rightarrow> Some fileId
      | None \<Rightarrow> driveRegex_match cs)"

definition convertGoogleDriveUrl :: "jsstring \<Rightarrow> jsstring" where
  "convertGoogleDriveUrl url =
     (case driveRegex_match url of
        Some fileId \<Rightarrow> download_prefix @ fileId
      | None \<Rightarrow> url)"

text \<open>
  The specification's pattern: at offset \<open>i\<close> the string reads
  \<open>https://drive.google.com/file/d/<ID>\<close>, where \<open>ident\<close> is the whole, non-empty
  run of identifier characters found there.
\<close>

definition drive_link_at :: "jsstring \<Rightarrow> nat \<Rightarrow> jsstring \<Rightarrow> bool" where
  "drive_link_at url i ident \<longleftrightarrow>
     ident \<noteq> [] \<and> (\<forall>c\<in>set ident. is_id_char c) \<and>
     take (length drive_prefix + length ident) (drop i url) = drive_prefix @ ident \<and>
     (case drop (i + length drive_prefix + length ident) url of
        [] \<Rightarrow> True
      | c # _ \<Rightarrow> \<not> is_id_char c)"

section \<open>POST /extract-text-url\<close>

record url_request =
  url :: "jsstring option"
  filename :: "jsstring option"

definition extract_text_url_catch :: "jsstring \<Rightarrow> effect list" where
  "extract_text_url_catch msg =
     [ConsoleError ''PDF URL processing error:'' msg,
      res_json 500 (JObj
        [(js ''error'', JStr (js ''Failed to extract text from PDF URL'')),
         (js ''message'', JStr msg),
         (js ''success'', JBool False)])]"

definition response_ok :: "nat \<Rightarrow> bool" where
  "response_ok code \<longleftrightarrow> 200 \<le> code \<and> code \<le> 299"

definition extract_text_url_result ::
  "env \<Rightarrow> url_request \<Rightarrow> jsstring \<Rightarrow> pdf_data \<Rightarrow> json" where
  "extract_text_url_result e req_body u pdfData = JObj
     [(js ''success'', JBool True),
      (js ''filename'', JStr (or_default (filename req_body) (js ''Unknown''))),
      (js ''url'', JStr u),
      (js ''text'', JStr (pdf_text pdfData)),
      (js ''metadata'', JObj
         [(js ''pages'', JNum (int (numpages pdfData))),
          (js ''info'', (case pdf_info pdfData of Some d \<Rightarrow> JObj d | None \<Rightarrow> JObj [])),
          (js ''version'', JStr (or_default (pdf_version pdfData) (js ''Unknown'')))]),
      (js ''extractedAt'', JStr (now e)),
      (js ''textLength'', JNum (int (length (pdf_text pdfData)))),
      (js ''wordCount'', JNum (int (wordCount (pdf_text pdfData))))]"

definition missing_url_response :: effect where
  \<open>missing_url_response =
     res_json 400 (JObj
       [(js ''error'', JStr (js ''No PDF URL provided'')),
        (js ''message'', JStr (js ''Please provide a "url" field with the PDF URL''))])\<close>

definition extract_text_url_handler :: "env \<Rightarrow> url_request \<Rightarrow> effect list" where
  "extract_text_url_handler e req_body =
     (case url req_body of
        None \<Rightarrow> [missing_url_response]
      | Some u \<Rightarrow>
          if u = [] then [missing_url_response]
          else
            (let processedUrl = convertGoogleDriveUrl u in
             Fetched processedUrl #
             (case fetch e processedUrl of
                FetchRejected msg \<Rightarrow> extract_text_url_catch msg
              | FetchResponse code statusText arrayBuffer \<Rightarrow>
                  if \<not> response_ok code
                  then extract_text_url_catch (js ''Failed to fetch PDF: '' @ statusText)
                  else
                    (case arrayBuffer of
                       Inl msg \<Rightarrow> extract_text_url_catch msg
                     | Inr dataBuffer \<Rightarrow>
                         (case pdfParse e dataBuffer of
                            Inl msg \<Rightarrow> extract_text_url_catch msg
                          | Inr pdfData \<Rightarrow>
                              [res_json 200
                                 (extract_text_url_result e req_body u pdfData)])))))"

section \<open>POST /generate-hmac\<close>

record hmac_request =
  data :: "jsstring option"
  secret :: "jsstring option"

definition missing_data_response :: effect where
  \<open>missing_data_response =
     res_json 400 (JObj
       [(js ''error'', JStr (js ''Missing data parameter'')),
        (js ''message'', JStr (js ''Please provide a "data" field with the data to sign'')),
        (js ''success'', JBool False)])\<close>

definition missing_secret_response :: effect where
  \<open>missing_secret_response =
     res_json 400 (JObj
       [(js ''error'', JStr (js ''Missing secret parameter'')),
        (js ''message'', JStr (js ''Please provide a "secret" field with the signing key'')),
        (js ''success'', JBool False)])\<close>

definition generate_hmac_handler :: "env \<Rightarrow> hmac_request \<Rightarrow> effect list" where
  "generate_hmac_handler e req_body =
     (case data req_body of
        None \<Rightarrow> [missing_data_response]
      | Some d \<Rightarrow>
          if d = [] then [missing_data_response]
          else
            (case secret req_body of
               None \<Rightarrow> [missing_secret_response]
             | Some k \<Rightarrow>
                 if k = [] then [missing_secret_response]
                 else
                   (let signature = hmac_sha512_hex e k d in
                    [res_json 200 (JObj
                       [(js ''success'', JBool True),
                        (js ''data'', JStr d),
                        (js ''signature'', JStr signature),
                        (js ''algorithm'', JStr (js ''HMAC-SHA512'')),
                        (js ''generatedAt'', JStr (now e)),
                        (js ''dataLength'', JNum (int (length d)))])])))"

section \<open>Sample requests\<close>

text \<open>
  Concrete inputs on which the theorems below are instantiated: an environment whose
  parser rejects an empty buffer and otherwise reports a two-word text, whose
  \<open>extname\<close> is the POSIX one, and whose digest is a stand-in that joins the key and
  the data; a file system with nothing in it, one in which the uploaded file cannot be
  removed, and a few requests.
\<close>

definition sample_pdf :: pdf_data where
  "sample_pdf = \<lparr>pdf_text = js ''Hello  world'', numpages = 1, pdf_info = None,
                 pdf_version = Some (js ''1.10.100'')\<rparr>"

definition sample_fetch :: "jsstring \<Rightarrow> fetch_result" where
  "sample_fetch u =
     (if u = js ''https://drive.google.com/uc?export=download&id=abc''
      then FetchResponse 200 (js ''OK'') (Inr [0x25, 0x50, 0x44, 0x46])
      else if u = js ''https://example.com/missing.pdf''
      then FetchResponse 404 (js ''Not Found'') (Inr [])
      else FetchRejected (js ''fetch failed''))"

definition sample_env :: env where
  "sample_env =
     \<lparr>extname = posix_extname,
      uploadsDir = js ''/srv/uploads'',
      uniqueSuffix = js ''1700000000000-42'',
      now = js ''2024-01-01T00:00:00.000Z'',
      pdfParse = (\<lambda>b. if b = [] then Inl (js ''Invalid PDF structure'') else Inr sample_pdf),
      fetch = sample_fetch,
      hmac_sha512_hex = (\<lambda>k d. js ''mac:'' @ k @ js '':'' @ d)\<rparr>"

definition empty_fs :: filesystem where
  "empty_fs = \<lparr>files = Map.empty, read_error = Map.empty, unlink_error = Map.empty\<rparr>"

definition sample_path :: jsstring where
  "sample_path = js ''/srv/uploads/pdf-1700000000000-42.pdf''"

definition locked_fs :: filesystem where
  "locked_fs = empty_fs\<lparr>unlink_error := [sample_path \<mapsto> js ''EPERM: operation not permitted'']\<rparr>"

definition pdf_part :: upload_part where
  "pdf_part = \<lparr>fieldname = js ''pdf'', originalname = js ''report.pdf'',
               mimetype = js ''application/pdf'', content = [0x25, 0x50, 0x44, 0x46]\<rparr>"

definition staged_file :: file_info where
  "staged_file = \<lparr>file_originalname = js ''report.pdf'', file_size = 4, path = sample_path\<rparr>"

definition staged :: "filesystem \<Rightarrow> filesystem" where
  "staged fs = fs\<lparr>files := (files fs)(sample_path \<mapsto> [0x25, 0x50, 0x44, 0x46])\<rparr>"

definition text_part :: upload_part where
  "text_part = \<lparr>fieldname = js ''pdf'', originalname = js ''notes.txt'',
                mimetype = js ''text/plain'', content = [0x68, 0x69]\<rparr>"

definition oversize_part :: upload_part where
  "oversize_part = pdf_part\<lparr>content := replicate 10485761 0\<rparr>"

definition misnamed_part :: upload_part where
  "misnamed_part = pdf_part\<lparr>fieldname := js ''document''\<rparr>"

definition blank_version_pdf :: pdf_data where
  "blank_version_pdf = sample_pdf\<lparr>pdf_version := Some []\<rparr>"

definition blank_version_env :: env where
  "blank_version_env = sample_env\<lparr>pdfParse := (\<lambda>b. Inr blank_version_pdf)\<rparr>"

definition drive_request :: url_request where
  "drive_request =
     \<lparr>url = Some (js ''https://drive.google.com/file/d/abc/view''),
      filename = Some (js ''cv.pdf'')\<rparr>"

definition hello_request :: hmac_request where
  "hello_request = \<lparr>data = Some (js ''Hello, World!''), secret = Some (js ''key'')\<rparr>"

definition exact_limit_part :: upload_part where
  "exact_limit_part = pdf_part\<lparr>content := replicate 10485760 0\<rparr>"

definition nameless_part :: upload_part where
  "nameless_part = text_part\<lparr>originalname := []\<rparr>"

definition secret_only_request :: hmac_request where
  "secret_only_request = \<lparr>data = None, secret = Some []\<rparr>"

section \<open>String literals\<close>

lemma unat_of_char: "unat (of_char x :: jschar) = of_char x"
proof -
  have "(256 :: nat) < 2 ^ LENGTH(16)" by simp
  with nat_of_char_less_256 [of x] have small: "(of_char x :: nat) < 2 ^ LENGTH(16)"
    by (rule less_trans)
  have "word_of_nat (of_char x) = (of_char x :: jschar)" by (rule of_nat_of_char)
  then show ?thesis using small by (rule of_nat_inverse)
qed

lemma inj_of_char_word16: "inj (of_char :: char \<Rightarrow> jschar)"
proof (rule injI)
  fix c d :: char
  assume "(of_char c :: jschar) = of_char d"
  then have "unat (of_char c :: jschar) = unat (of_char d :: jschar)" by (rule arg_cong)
  then have "(of_char c :: nat) = of_char d" by (simp only: unat_of_char)
  then show "c = d" by (rule of_char_eqI)
qed

lemma js_eq_iff: "js a = js b \<longleftrightarrow> a = b"
  unfolding js_def by (rule inj_map_eq_map [OF inj_of_char_word16])

lemma js_eq_Nil: "js a = [] \<longleftrightarrow> a = []"
  by (simp add: js_def)

lemma length_js: "length (js a) = length a"
  by (simp add: js_def)


lemma field_JObj: "field (JObj kvs) k = map_of kvs (js k)"
  by (simp add: field_def)

section \<open>Word count\<close>

lemma ws_tokens_space: "is_space c \<Longrightarrow> ws_tokens (c # cs) = ws_tokens cs"
  by simp

lemma ws_tokens_dropWhile_space: "ws_tokens (dropWhile is_space s) = ws_tokens s"
  by (induction s) simp_all

lemma ws_tokens_first:
  "ws_tokens s =
     (if takeWhile (\<lambda>x. \<not> is_space x) s = [] then []
      else [takeWhile (\<lambda>x. \<not> is_space x) s]) @
     ws_tokens (dropWhile (\<lambda>x. \<not> is_space x) s)"
  by (cases s) simp_all

lemma filter_split_from:
  "filter (\<lambda>word. length word > 0) (split_from piece s) =
     (if piece @ takeWhile (\<lambda>x. \<not> is_space x) s = [] then []
      else [piece @ takeWhile (\<lambda>x. \<not> is_space x) s]) @
     ws_tokens (dropWhile (\<lambda>x. \<not> is_space x) s)"
proof (induction piece s rule: split_from.induct)
  case (1 piece)
  then show ?case by simp
next
  case (2 piece c cs)
  show ?case
  proof (cases "is_space c")
    case True
    have "filter (\<lambda>word. length word > 0) (split_from [] (dropWhile is_space cs)) =
          ws_tokens (dropWhile is_space cs)"
      using "2.IH"(1) [OF True] ws_tokens_first [of "dropWhile is_space cs"] by simp
    with True show ?thesis by (simp add: ws_tokens_dropWhile_space)
  next
    case False
    with "2.IH"(2) [OF False] show ?thesis by simp
  qed
qed

lemma wordCount_tokens: "wordCount s = length (ws_tokens s)"
proof -
  have "filter (\<lambda>word. length word > 0) (split_whitespace s) = ws_tokens s"
    unfolding split_whitespace_def filter_split_from
    using ws_tokens_first [of s] by simp
  then show ?thesis by (simp add: wordCount_def)
qed

lemma ws_tokens_Nil_iff: "ws_tokens s = [] \<longleftrightarrow> (\<forall>c\<in>set s. is_space c)"
  by (induction s rule: ws_tokens.induct) auto

lemma ws_tokens_nonempty:
  "w \<in> set (ws_tokens s) \<Longrightarrow> w \<noteq> [] \<and> (\<forall>c\<in>set w. \<not> is_space c)"
proof (induction s rule: ws_tokens.induct)
  case 1
  then show ?case by simp
next
  case (2 c cs)
  show ?case
  proof (cases "is_space c")
    case True
    with "2.prems" have "w \<in> set (ws_tokens cs)" by simp
    with True show ?thesis by (rule "2.IH"(1))
  next
    case False
    with "2.prems" consider
      "w = c # takeWhile (\<lambda>x. \<not> is_space x) cs" |
      "w \<in> set (ws_tokens (dropWhile (\<lambda>x. \<not> is_space x) cs))"
      by auto
    then show ?thesis
    proof cases
      case 1
      have "\<forall>x\<in>set (takeWhile (\<lambda>x. \<not> is_space x) cs). \<not> is_space x"
        by (blast dest: set_takeWhileD)
      with 1 False show ?thesis by simp
    next
      case 2
      with False show ?thesis by (rule "2.IH"(2))
    qed
  qed
qed

section \<open>Matching a Google Drive link\<close>

lemma length_drive_prefix: "length drive_prefix = 32"
  by (simp add: drive_prefix_def js_def)

lemma takeWhile_eq_iff_run:
  "takeWhile P xs = ys \<longleftrightarrow>
     (\<forall>y\<in>set ys. P y) \<and> take (length ys) xs = ys \<and>
     (case drop (length ys) xs of [] \<Rightarrow> True | c # _ \<Rightarrow> \<not> P c)"
proof (induction xs arbitrary: ys)
  case Nil
  then show ?case by auto
next
  case (Cons x xs)
  show ?case
  proof (cases ys)
    case Nil
    then show ?thesis by auto
  next
    case (Cons y ys')
    with Cons.IH [of ys'] show ?thesis by auto
  qed
qed

lemma take_append_split:
  "length p = n \<Longrightarrow>
   take (n + m) s = p @ ys \<longleftrightarrow> take n s = p \<and> take m (drop n s) = ys"
proof (cases "n \<le> length s")
  case True
  assume "length p = n"
  with True show ?thesis by (simp add: take_add)
next
  case False
  assume p: "length p = n"
  have "take (n + m) s \<noteq> p @ ys"
  proof
    assume "take (n + m) s = p @ ys"
    then have "length (take (n + m) s) = length (p @ ys)" by simp
    with False p show False by simp
  qed
  moreover have "take n s \<noteq> p"
  proof
    assume "take n s = p"
    then have "length (take n s) = length p" by simp
    with False p show False by simp
  qed
  ultimately show ?thesis by simp
qed

lemma driveRegex_at_iff:
  "driveRegex_at s = Some ident \<longleftrightarrow> drive_link_at s 0 ident"
proof -
  let ?n = "length drive_prefix"
  have split: "take (?n + length ident) s = drive_prefix @ ident \<longleftrightarrow>
        take ?n s = drive_prefix \<and> take (length ident) (drop ?n s) = ident"
    by (rule take_append_split) simp
  have run: "takeWhile is_id_char (drop ?n s) = ident \<longleftrightarrow>
     (\<forall>y\<in>set ident. is_id_char y) \<and> take (length ident) (drop ?n s) = ident \<and>
     (case drop (?n + length ident) s of [] \<Rightarrow> True | c # _ \<Rightarrow> \<not> is_id_char c)"
    using takeWhile_eq_iff_run [of is_id_char "drop ?n s" ident] by (simp add: add.commute)
  have link: "drive_link_at s 0 ident \<longleftrightarrow>
     ident \<noteq> [] \<and> (\<forall>c\<in>set ident. is_id_char c) \<and>
     (take ?n s = drive_prefix \<and> take (length ident) (drop ?n s) = ident) \<and>
     (case drop (?n + length ident) s of [] \<Rightarrow> True | c # _ \<Rightarrow> \<not> is_id_char c)"
    unfolding drive_link_at_def split [symmetric] by simp
  have at: "driveRegex_at s = Some ident \<longleftrightarrow>
     take ?n s = drive_prefix \<and> takeWhile is_id_char (drop ?n s) = ident \<and> ident \<noteq> []"
    by (auto simp: driveRegex_at_def Let_def)
  show ?thesis
    unfolding link at run by blast
qed

lemma drive_link_at_drop:
  "drive_link_at s i ident \<longleftrightarrow> drive_link_at (drop i s) 0 ident"
  by (simp add: drive_link_at_def add.commute add.left_commute)

lemma driveRegex_at_drop_iff:
  "driveRegex_at (drop i s) = Some ident \<longleftrightarrow> drive_link_at s i ident"
  using driveRegex_at_iff [of "drop i s" ident] drive_link_at_drop [of s i ident]
  by simp

lemma driveRegex_at_drop_None:
  "driveRegex_at (drop i s) = None \<longleftrightarrow> (\<forall>ident. \<not> drive_link_at s i ident)"
proof -
  have "driveRegex_at (drop i s) = None \<longleftrightarrow>
        (\<forall>ident. driveRegex_at (drop i s) \<noteq> Some ident)"
    by (cases "driveRegex_at (drop i s)") simp_all
  then show ?thesis by (simp add: driveRegex_at_drop_iff)
qed

lemma driveRegex_match_None:
  "driveRegex_match s = None \<longleftrightarrow> (\<forall>i. driveRegex_at (drop i s) = None)"
proof (induction s)
  case Nil
  then show ?case by simp
next
  case (Cons c cs)
  have "(\<forall>i. driveRegex_at (drop i (c # cs)) = None) \<longleftrightarrow>
        driveRegex_at (c # cs) = None \<and> (\<forall>i. driveRegex_at (drop i cs) = None)"
    (is "?L \<longleftrightarrow> ?R")
  proof
    assume l: ?L
    show ?R
    proof
      from l have "driveRegex_at (drop 0 (c # cs)) = None" by (rule spec)
      then show "driveRegex_at (c # cs) = None" by simp
      show "\<forall>i. driveRegex_at (drop i cs) = None"
      proof
        fix i
        from l have "driveRegex_at (drop (Suc i) (c # cs)) = None" by (rule spec)
        then show "driveRegex_at (drop i cs) = None" by simp
      qed
    qed
  next
    assume r: ?R
    show ?L
    proof
      fix i show "driveRegex_at (drop i (c # cs)) = None"
        using r by (cases i) simp_all
    qed
  qed
  with Cons show ?case by (simp split: option.splits)
qed

lemma driveRegex_match_first:
  "driveRegex_at (drop i s) = Some d \<Longrightarrow>
   (\<forall>j<i. driveRegex_at (drop j s) = None) \<Longrightarrow>
   driveRegex_match s = Some d"
proof (induction s arbitrary: i)
  case Nil
  then show ?case by simp
next
  case (Cons c cs)
  show ?case
  proof (cases i)
    case 0
    with Cons.prems show ?thesis by simp
  next
    case (Suc k)
    from Cons.prems(2) Suc have "driveRegex_at (drop 0 (c # cs)) = None" by blast
    then have here: "driveRegex_at (c # cs) = None" by simp
    from Suc Cons.prems have "driveRegex_at (drop k cs) = Some d" by simp
    moreover have "\<forall>j<k. driveRegex_at (drop j cs) = None"
    proof (intro allI impI)
      fix j assume "j < k"
      with Suc have "Suc j < i" by simp
      with Cons.prems(2) have "driveRegex_at (drop (Suc j) (c # cs)) = None" by blast
      then show "driveRegex_at (drop j cs) = None" by simp
    qed
    ultimately have "driveRegex_match cs = Some d" by (rule Cons.IH)
    with here show ?thesis by simp
  qed
qed

section \<open>Effects and cleanup\<close>

lemma sent_responses_append:
  "sent_responses (xs @ ys) = sent_responses xs @ sent_responses ys"
  by (induction xs rule: sent_responses.induct) simp_all

lemma cleanupFile_absent:
  "files fs p = None \<Longrightarrow> cleanupFile fs p = (fs, [])"
  by (simp add: cleanupFile_def existsSync_def)

lemma cleanupFile_removed:
  "files fs p = Some b \<Longrightarrow> unlink_error fs p = None \<Longrightarrow>
   cleanupFile fs p = (fs\<lparr>files := (files fs)(p := None)\<rparr>, [Unlinked p])"
  by (simp add: cleanupFile_def existsSync_def unlinkSync_def)

lemma cleanupFile_failed:
  "files fs p = Some b \<Longrightarrow> unlink_error fs p = Some msg \<Longrightarrow>
   cleanupFile fs p = (fs, [ConsoleError ''Error cleaning up file:'' msg])"
  by (simp add: cleanupFile_def existsSync_def unlinkSync_def)

lemma cleanupFile_sends_nothing: "sent_responses (snd (cleanupFile fs p)) = []"
  by (simp add: cleanupFile_def unlinkSync_def split: option.splits)

lemma readFileSync_unlink_error:
  "readFileSync (fs\<lparr>unlink_error := u\<rparr>) p = readFileSync fs p"
  by (simp add: readFileSync_def split: option.splits)

lemma removeUploadedFiles_removed:
  "files fs (path f) = Some b \<Longrightarrow> unlink_error fs (path f) = None \<Longrightarrow>
   removeUploadedFiles fs [f] = (fs\<lparr>files := (files fs)(path f := None)\<rparr>, [Unlinked (path f)])"
  by (simp add: unlinkSync_def)

lemma removeUploadedFiles_failed:
  "files fs (path f) = Some b \<Longrightarrow> unlink_error fs (path f) = Some msg \<Longrightarrow>
   removeUploadedFiles fs [f] = (fs, [])"
  by (simp add: unlinkSync_def)

lemma error_middleware_run:
  "\<exists>pre r. error_middleware err = pre @ [Sent r] \<and> sent_responses pre = [] \<and>
           (\<forall>q. Stored q \<notin> set pre)"
proof -
  consider
    (limit) "instanceof_MulterError err \<and> error_code err = Some (js ''LIMIT_FILE_SIZE'')" |
    (filter) "\<not> (instanceof_MulterError err \<and> error_code err = Some (js ''LIMIT_FILE_SIZE''))"
      "error_message err = js ''Only PDF files are allowed!''" |
    (other) "\<not> (instanceof_MulterError err \<and> error_code err = Some (js ''LIMIT_FILE_SIZE''))"
      "error_message err \<noteq> js ''Only PDF files are allowed!''"
    by blast
  then show ?thesis
  proof cases
    case limit
    then have "\<exists>r. error_middleware err = [] @ [Sent r]"
      by (simp add: error_middleware_def res_json_def)
    moreover have "sent_responses [] = [] \<and> (\<forall>q. Stored q \<notin> set [])" by simp
    ultimately show ?thesis by blast
  next
    case filter
    then have "\<exists>r. error_middleware err = [] @ [Sent r]"
      by (simp add: error_middleware_def res_json_def)
    moreover have "sent_responses [] = [] \<and> (\<forall>q. Stored q \<notin> set [])" by simp
    ultimately show ?thesis by blast
  next
    case other
    let ?pre = "[ConsoleError ''Unhandled error:'' (error_message err)]"
    from other have "\<exists>r. error_middleware err = ?pre @ [Sent r]"
      by (simp add: error_middleware_def res_json_def)
    moreover have "sent_responses ?pre = [] \<and> (\<forall>q. Stored q \<notin> set ?pre)" by simp
    ultimately show ?thesis by blast
  qed
qed

section \<open>The upload middleware, case by case\<close>

lemma fileFilter_cases:
  "fileFilter e p =
     (if mimetype p = js ''application/pdf'' \<or>
         toLowerCase (extname e (originalname p)) = js ''.pdf''
      then Inr True else Inl (Error (js ''Only PDF files are allowed!'')))"
  by (simp add: fileFilter_def)

lemma multer_parts_nameless:
  "\<forall>q\<in>set ps. originalname q = [] \<Longrightarrow>
   multer_parts e fs n up ps = (fs, [], Inr (case up of [] \<Rightarrow> None | f # _ \<Rightarrow> Some f))"
  by (induction ps) simp_all

lemma multer_parts_dropWhile:
  "multer_parts e fs n up ps =
   multer_parts e fs n up (dropWhile (\<lambda>q. originalname q = []) ps)"
  by (induction ps) simp_all

lemma multer_parts_exhausted:
  "multer_parts e fs 0 up ps =
     (if \<forall>q\<in>set ps. originalname q = []
      then (fs, [], Inr (case up of [] \<Rightarrow> None | f # _ \<Rightarrow> Some f))
      else abortWithError fs up
             (MulterError (js ''LIMIT_UNEXPECTED_FILE'') (js ''Unexpected field'')))"
  by (induction ps) simp_all

lemma upload_single_Nil: "upload_single e fs [] = (fs, [], Inr None)"
  by (simp add: upload_single_def)

lemma upload_single_first:
  assumes "originalname p \<noteq> []"
  shows "upload_single e fs (p # rest) =
     (if fieldname p \<noteq> js ''pdf''
      then (fs, [], Inl (MulterError (js ''LIMIT_UNEXPECTED_FILE'') (js ''Unexpected field'')))
      else if \<not> (mimetype p = js ''application/pdf'' \<or>
                   toLowerCase (extname e (originalname p)) = js ''.pdf'')
      then (fs, [], Inl (Error (js ''Only PDF files are allowed!'')))
      else
        (let finalPath = uploadsDir e @ js ''/'' @ storage_filename e p;
             written = take fileSize_limit (content p);
             f = \<lparr>file_originalname = originalname p, file_size = length written,
                  path = finalPath\<rparr>;
             fs' = fs\<lparr>files := (files fs)(finalPath \<mapsto> written)\<rparr>
         in if fileSize_limit \<le> length (content p)
            then (fst (removeUploadedFiles fs' [f]),
                  Stored finalPath # snd (removeUploadedFiles fs' [f]),
                  Inl (MulterError (js ''LIMIT_FILE_SIZE'') (js ''File too large'')))
            else if \<forall>q\<in>set rest. originalname q = []
            then (fs', [Stored finalPath], Inr (Some f))
            else (fst (removeUploadedFiles fs' [f]),
                  Stored finalPath # snd (removeUploadedFiles fs' [f]),
                  Inl (MulterError (js ''LIMIT_UNEXPECTED_FILE'') (js ''Unexpected field'')))))"
  using assms
  by (simp add: upload_single_def fileFilter_cases Let_def abortWithError_def
      multer_parts_exhausted split: prod.splits)

lemma upload_single_dropWhile:
  "upload_single e fs parts = upload_single e fs (dropWhile (\<lambda>q. originalname q = []) parts)"
  unfolding upload_single_def by (rule multer_parts_dropWhile)

section \<open>The shape of the upload handler's run\<close>

lemma extract_text_catch_run:
  "path file \<noteq> [] \<Longrightarrow>
   extract_text_catch fs (Some file) msg =
     (fst (cleanupFile fs (path file)),
      ConsoleError ''PDF processing error:'' msg # snd (cleanupFile fs (path file)) @
      [res_json 500 (JObj
         [(js ''error'', JStr (js ''Failed to extract text from PDF'')),
          (js ''message'', JStr msg),
          (js ''success'', JBool False)])])"
  by (simp add: extract_text_catch_def split: prod.splits)

lemma extract_text_handler_success:
  "readFileSync fs (path file) = Inr buf \<Longrightarrow> pdfParse e buf = Inr pd \<Longrightarrow>
   extract_text_handler e fs (Some file) =
     (fst (cleanupFile fs (path file)),
      snd (cleanupFile fs (path file)) @ [res_json 200 (extract_text_result e file pd)])"
  by (simp add: extract_text_handler_def split: prod.splits)

lemma extract_text_handler_read_failure:
  "readFileSync fs (path file) = Inl msg \<Longrightarrow>
   extract_text_handler e fs (Some file) = extract_text_catch fs (Some file) msg"
  by (simp add: extract_text_handler_def)

lemma extract_text_handler_parse_failure:
  "readFileSync fs (path file) = Inr buf \<Longrightarrow> pdfParse e buf = Inl msg \<Longrightarrow>
   extract_text_handler e fs (Some file) = extract_text_catch fs (Some file) msg"
  by (simp add: extract_text_handler_def)

text \<open>
  Whatever the outcome, the handler's run on a stored file is: possibly the log line of
  the catch block, then what \<open>cleanupFile\<close> did, then one response; and neither the
  log line nor the response depends on which removals fail.
\<close>

lemma extract_text_handler_run:
  assumes "path file \<noteq> []"
  shows "\<exists>before r. sent_responses before = [] \<and> (\<forall>q. Stored q \<notin> set before) \<and>
           (\<forall>u. extract_text_handler e (fs\<lparr>unlink_error := u\<rparr>) (Some file) =
                  (fst (cleanupFile (fs\<lparr>unlink_error := u\<rparr>) (path file)),
                   before @ snd (cleanupFile (fs\<lparr>unlink_error := u\<rparr>) (path file)) @
                   [Sent r]))"
proof (cases "readFileSync fs (path file)")
  case (Inl msg)
  then have "extract_text_handler e (fs\<lparr>unlink_error := u\<rparr>) (Some file) =
      (fst (cleanupFile (fs\<lparr>unlink_error := u\<rparr>) (path file)),
       [ConsoleError ''PDF processing error:'' msg] @
       snd (cleanupFile (fs\<lparr>unlink_error := u\<rparr>) (path file)) @
       [Sent \<lparr>status = 500, body = JObj
         [(js ''error'', JStr (js ''Failed to extract text from PDF'')),
          (js ''message'', JStr msg),
          (js ''success'', JBool False)]\<rparr>])" for u
    using assms
    by (simp add: extract_text_handler_read_failure readFileSync_unlink_error
        extract_text_catch_run res_json_def)
  moreover have "sent_responses [ConsoleError ''PDF processing error:'' msg] = [] \<and>
      (\<forall>q. Stored q \<notin> set [ConsoleError ''PDF processing error:'' msg])" by simp
  ultimately show ?thesis by blast
next
  case (Inr buf)
  show ?thesis
  proof (cases "pdfParse e buf")
    case (Inl msg)
    with Inr have "extract_text_handler e (fs\<lparr>unlink_error := u\<rparr>) (Some file) =
        (fst (cleanupFile (fs\<lparr>unlink_error := u\<rparr>) (path file)),
         [ConsoleError ''PDF processing error:'' msg] @
         snd (cleanupFile (fs\<lparr>unlink_error := u\<rparr>) (path file)) @
         [Sent \<lparr>status = 500, body = JObj
           [(js ''error'', JStr (js ''Failed to extract text from PDF'')),
            (js ''message'', JStr msg),
            (js ''success'', JBool False)]\<rparr>])" for u
      using assms
      by (simp add: extract_text_handler_parse_failure readFileSync_unlink_error
          extract_text_catch_run res_json_def)
    moreover have "sent_responses [ConsoleError ''PDF processing error:'' msg] = [] \<and>
      (\<forall>q. Stored q \<notin> set [ConsoleError ''PDF processing error:'' msg])" by simp
    ultimately show ?thesis by blast
  next
    case pd: (Inr pd)
    with Inr have "extract_text_handler e (fs\<lparr>unlink_error := u\<rparr>) (Some file) =
        (fst (cleanupFile (fs\<lparr>unlink_error := u\<rparr>) (path file)),
         [] @ snd (cleanupFile (fs\<lparr>unlink_error := u\<rparr>) (path file)) @
         [Sent \<lparr>status = 200, body = extract_text_result e file pd\<rparr>])" for u
      by (simp add: extract_text_handler_success readFileSync_unlink_error res_json_def)
    moreover have "sent_responses [] = [] \<and> (\<forall>q. Stored q \<notin> set [])" by simp
    ultimately show ?thesis by blast
  qed
qed

section \<open>Runs that stage a file and runs that do not\<close>

text \<open>
  A run is taken as a function of the removals that fail. Two shapes cover every
  request: nothing is written and one response is sent; or one file is written, its
  removal is attempted, and one response is sent.
\<close>

lemma unstaged_run:
  fixes run :: "(jsstring \<rightharpoonup> jsstring) \<Rightarrow> filesystem \<times> effect list"
  assumes run: "\<And>u. snd (run u) = pre @ [Sent r]"
    and quiet: "sent_responses pre = []" "\<forall>q. Stored q \<notin> set pre"
  shows "\<exists>before r'.
           snd (run u0) = before @ [Sent r'] \<and>
           sent_responses before = [] \<and>
           sent_responses (snd (run Map.empty)) = [r'] \<and>
           (\<forall>p. Stored p \<in> set before \<longrightarrow>
              (case u0 p of
                 None \<Rightarrow> Unlinked p \<in> set before \<and> files (fst (run u0)) p = None
               | Some msg \<Rightarrow> files (fst (run u0)) p \<noteq> None))"
proof (intro exI conjI)
  show "snd (run u0) = pre @ [Sent r]" by (rule run)
  show "sent_responses pre = []" by (rule quiet)
  show "sent_responses (snd (run Map.empty)) = [r]"
    by (simp add: run sent_responses_append quiet)
  show "\<forall>p. Stored p \<in> set pre \<longrightarrow>
              (case u0 p of
                 None \<Rightarrow> Unlinked p \<in> set pre \<and> files (fst (run u0)) p = None
               | Some msg \<Rightarrow> files (fst (run u0)) p \<noteq> None)"
    using quiet by simp
qed

lemma staged_run:
  fixes run :: "(jsstring \<rightharpoonup> jsstring) \<Rightarrow> filesystem \<times> effect list"
    and rm :: "(jsstring \<rightharpoonup> jsstring) \<Rightarrow> filesystem \<times> effect list"
  assumes run: "\<And>u. run u = (fst (rm u), Stored pth # pre @ snd (rm u) @ post @ [Sent r])"
    and quiet: "sent_responses pre = []" "\<forall>q. Stored q \<notin> set pre"
      "sent_responses post = []" "\<forall>q. Stored q \<notin> set post"
    and removed: "\<And>u. u pth = None \<Longrightarrow>
        snd (rm u) = [Unlinked pth] \<and> files (fst (rm u)) pth = None"
    and failed: "\<And>u msg. u pth = Some msg \<Longrightarrow>
        sent_responses (snd (rm u)) = [] \<and> (\<forall>q. Stored q \<notin> set (snd (rm u))) \<and>
        files (fst (rm u)) pth \<noteq> None"
  shows "\<exists>before r'.
           snd (run u0) = before @ [Sent r'] \<and>
           sent_responses before = [] \<and>
           sent_responses (snd (run Map.empty)) = [r'] \<and>
           (\<forall>p. Stored p \<in> set before \<longrightarrow>
              (case u0 p of
                 None \<Rightarrow> Unlinked p \<in> set before \<and> files (fst (run u0)) p = None
               | Some msg \<Rightarrow> files (fst (run u0)) p \<noteq> None))"
proof -
  let ?before = "Stored pth # pre @ snd (rm u0) @ post"
  have silent: "sent_responses (snd (rm u)) = []" for u
  proof (cases "u pth")
    case None
    with removed [of u] show ?thesis by simp
  next
    case (Some msg)
    with failed [of u msg] show ?thesis by simp
  qed
  have shape: "snd (run u0) = ?before @ [Sent r]" by (simp add: run)
  have mute: "sent_responses ?before = []"
    by (simp add: sent_responses_append quiet silent)
  have unlocked: "sent_responses (snd (run Map.empty)) = [r]"
    by (simp add: run sent_responses_append quiet silent)
  have only: "p = pth" if "Stored p \<in> set ?before" for p
  proof (cases "u0 pth")
    case None
    with removed [of u0] that quiet show ?thesis by auto
  next
    case (Some msg)
    with failed [of u0 msg] that quiet show ?thesis by auto
  qed
  have outcome: "case u0 pth of
        None \<Rightarrow> Unlinked pth \<in> set ?before \<and> files (fst (run u0)) pth = None
      | Some msg \<Rightarrow> files (fst (run u0)) pth \<noteq> None"
  proof (cases "u0 pth")
    case None
    with removed [of u0] show ?thesis by (simp add: run)
  next
    case (Some msg)
    with failed [of u0 msg] show ?thesis by (simp add: run)
  qed
  have "\<forall>p. Stored p \<in> set ?before \<longrightarrow>
          (case u0 p of
             None \<Rightarrow> Unlinked p \<in> set ?before \<and> files (fst (run u0)) p = None
           | Some msg \<Rightarrow> files (fst (run u0)) p \<noteq> None)"
    using only outcome by blast
  with shape mute unlocked show ?thesis by blast
qed

section \<open>Sample runs\<close>

lemma posix_extname_samples:
  "posix_extname (js ''report.pdf'') = js ''.pdf''"
  "posix_extname (js ''notes.txt'') = js ''.txt''"
  "posix_extname (js ''.pdf'') = []"
  "posix_extname [] = []"
  by code_simp+

lemma pdf_part_fields:
  "fieldname pdf_part = js ''pdf''"
  "mimetype pdf_part = js ''application/pdf''"
  "originalname pdf_part = js ''report.pdf''"
  "content pdf_part = [0x25, 0x50, 0x44, 0x46]"
  by (simp_all add: pdf_part_def)

lemma sample_storage_path:
  "uploadsDir sample_env @ js ''/'' @ storage_filename sample_env pdf_part = sample_path"
proof -
  have "extname sample_env (originalname pdf_part) = js ''.pdf''"
    by (simp add: sample_env_def pdf_part_fields posix_extname_samples)
  then show ?thesis
    by (simp add: storage_filename_def pdf_part_fields sample_env_def sample_path_def js_def)
qed

lemma upload_sample:
  "upload_single sample_env fs [pdf_part] =
     (staged fs, [Stored sample_path], Inr (Some staged_file))"
proof -
  have named: "originalname pdf_part \<noteq> []" by (simp add: pdf_part_fields js_eq_Nil)
  show ?thesis
    unfolding upload_single_first [OF named] sample_storage_path
    by (simp add: pdf_part_fields fileSize_limit_def staged_def staged_file_def)
qed

lemma pdfParse_sample: "pdfParse sample_env [0x25, 0x50, 0x44, 0x46] = Inr sample_pdf"
  by (simp add: sample_env_def)

lemma readFileSync_staged:
  "read_error fs sample_path = None \<Longrightarrow>
   readFileSync (staged fs) sample_path = Inr [0x25, 0x50, 0x44, 0x46]"
  by (simp add: readFileSync_def staged_def)

lemma post_extract_text_sample:
  "read_error fs sample_path = None \<Longrightarrow>
   post_extract_text sample_env fs [pdf_part] =
     (fst (cleanupFile (staged fs) sample_path),
      Stored sample_path # snd (cleanupFile (staged fs) sample_path) @
      [res_json 200 (extract_text_result sample_env staged_file sample_pdf)])"
  using extract_text_handler_success [of "staged fs" staged_file
      "[0x25, 0x50, 0x44, 0x46]" sample_env sample_pdf]
  by (simp add: post_extract_text_def upload_sample readFileSync_staged pdfParse_sample
      staged_file_def)

lemma second_part_sample:
  "snd (post_extract_text sample_env empty_fs [pdf_part, pdf_part]) =
     [Stored sample_path, Unlinked sample_path,
      ConsoleError ''Unhandled error:'' (js ''Unexpected field''),
      res_json 500 (JObj
        [(js ''error'', JStr (js ''Internal server error'')),
         (js ''message'', JStr (js ''Something went wrong processing your request''))])]"
  "files (fst (post_extract_text sample_env empty_fs [pdf_part, pdf_part])) sample_path = None"
proof -
  have named: "originalname pdf_part \<noteq> []" by (simp add: pdf_part_fields js_eq_Nil)
  have there: "files (staged empty_fs) (path staged_file) = Some [0x25, 0x50, 0x44, 0x46]"
    by (simp add: staged_def staged_file_def)
  have free: "unlink_error (staged empty_fs) (path staged_file) = None"
    by (simp add: staged_def empty_fs_def)
  have four: "Suc (Suc (Suc (Suc 0))) = 4" by simp
  have up: "upload_single sample_env empty_fs [pdf_part, pdf_part] =
      (fst (removeUploadedFiles (staged empty_fs) [staged_file]),
       Stored sample_path # snd (removeUploadedFiles (staged empty_fs) [staged_file]),
       Inl (MulterError (js ''LIMIT_UNEXPECTED_FILE'') (js ''Unexpected field'')))"
    unfolding upload_single_first [OF named] sample_storage_path
    by (simp add: pdf_part_fields fileSize_limit_def staged_def staged_file_def js_eq_Nil
        Let_def four del: removeUploadedFiles.simps)
  have at_path: "path staged_file = sample_path" by (simp add: staged_file_def)
  note rm = removeUploadedFiles_removed [OF there free]
  have run: "post_extract_text sample_env empty_fs [pdf_part, pdf_part] =
      ((staged empty_fs)\<lparr>files := (files (staged empty_fs))(sample_path := None)\<rparr>,
       [Stored sample_path, Unlinked sample_path] @
       error_middleware (MulterError (js ''LIMIT_UNEXPECTED_FILE'') (js ''Unexpected field'')))"
    unfolding post_extract_text_def up rm at_path by simp
  show "snd (post_extract_text sample_env empty_fs [pdf_part, pdf_part]) =
     [Stored sample_path, Unlinked sample_path,
      ConsoleError ''Unhandled error:'' (js ''Unexpected field''),
      res_json 500 (JObj
        [(js ''error'', JStr (js ''Internal server error'')),
         (js ''message'', JStr (js ''Something went wrong processing your request''))])]"
    unfolding run by (simp add: error_middleware_def js_eq_iff)
  show
    "files (fst (post_extract_text sample_env empty_fs [pdf_part, pdf_part])) sample_path = None"
    unfolding run by simp
qed

section \<open>The responses of the two extraction handlers\<close>

lemma extract_text_catch_responses:
  "sent_responses (snd (extract_text_catch fs req_file msg)) =
     [\<lparr>status = 500, body = JObj
        [(js ''error'', JStr (js ''Failed to extract text from PDF'')),
         (js ''message'', JStr msg),
         (js ''success'', JBool False)]\<rparr>]"
proof -
  obtain fs' cleaned where c:
    "(case req_file of
        Some file \<Rightarrow> if path file \<noteq> [] then cleanupFile fs (path file) else (fs, [])
      | None \<Rightarrow> (fs, [])) = (fs', cleaned)"
    by (cases "(case req_file of
        Some file \<Rightarrow> if path file \<noteq> [] then cleanupFile fs (path file) else (fs, [])
      | None \<Rightarrow> (fs, []))") blast
  have "sent_responses cleaned = []"
  proof (cases req_file)
    case None
    with c show ?thesis by simp
  next
    case (Some f)
    show ?thesis
    proof (cases "path f = []")
      case True
      with Some c show ?thesis by simp
    next
      case False
      with Some c have "cleaned = snd (cleanupFile fs (path f))" by simp
      then show ?thesis by (simp add: cleanupFile_sends_nothing)
    qed
  qed
  then show ?thesis
    by (simp add: extract_text_catch_def c sent_responses_append res_json_def)
qed

lemma extract_text_handler_responses:
  "sent_responses (snd (extract_text_handler e fs req_file)) =
     [case req_file of
        None \<Rightarrow>
          \<lparr>status = 400, body = JObj
             [(js ''error'', JStr (js ''No PDF file uploaded'')),
              (js ''message'',
               JStr (js (''Please upload a PDF file using the '' @ [CHR 0x22] @ ''pdf'' @
                         [CHR 0x22] @ '' field'')))]\<rparr>
      | Some file \<Rightarrow>
          (case readFileSync fs (path file) of
             Inl msg \<Rightarrow>
               \<lparr>status = 500, body = JObj
                  [(js ''error'', JStr (js ''Failed to extract text from PDF'')),
                   (js ''message'', JStr msg),
                   (js ''success'', JBool False)]\<rparr>
           | Inr buf \<Rightarrow>
               (case pdfParse e buf of
                  Inl msg \<Rightarrow>
                    \<lparr>status = 500, body = JObj
                       [(js ''error'', JStr (js ''Failed to extract text from PDF'')),
                        (js ''message'', JStr msg),
                        (js ''success'', JBool False)]\<rparr>
                | Inr pd \<Rightarrow> \<lparr>status = 200, body = extract_text_result e file pd\<rparr>))]"
proof (cases req_file)
  case None
  then show ?thesis by (simp add: extract_text_handler_def res_json_def)
next
  case (Some f)
  show ?thesis
  proof (cases "readFileSync fs (path f)")
    case (Inl msg)
    with Some show ?thesis
      by (simp add: extract_text_handler_read_failure extract_text_catch_responses)
  next
    case (Inr buf)
    show ?thesis
    proof (cases "pdfParse e buf")
      case (Inl msg)
      with Some Inr show ?thesis
        by (simp add: extract_text_handler_parse_failure extract_text_catch_responses)
    next
      case pd: (Inr pd)
      with Some Inr show ?thesis
        by (simp add: extract_text_handler_success sent_responses_append
            cleanupFile_sends_nothing res_json_def)
    qed
  qed
qed

lemma extract_text_url_handler_responses:
  "sent_responses (extract_text_url_handler e req_body) =
     [case url req_body of
        None \<Rightarrow>
          \<lparr>status = 400, body = JObj
             [(js ''error'', JStr (js ''No PDF URL provided'')),
              (js ''message'',
               JStr (js (''Please provide a '' @ [CHR 0x22] @ ''url'' @ [CHR 0x22] @
                         '' field with the PDF URL'')))]\<rparr>
      | Some u \<Rightarrow>
          if u = [] then
            \<lparr>status = 400, body = JObj
               [(js ''error'', JStr (js ''No PDF URL provided'')),
                (js ''message'',
                 JStr (js (''Please provide a '' @ [CHR 0x22] @ ''url'' @ [CHR 0x22] @
                           '' field with the PDF URL'')))]\<rparr>
          else
            (case (case fetch e (convertGoogleDriveUrl u) of
                     FetchRejected msg \<Rightarrow> Inl msg
                   | FetchResponse code statusText arrayBuffer \<Rightarrow>
                       if \<not> response_ok code then Inl (js ''Failed to fetch PDF: '' @ statusText)
                       else
                         (case arrayBuffer of
                            Inl msg \<Rightarrow> Inl msg
                          | Inr buf \<Rightarrow> pdfParse e buf)) of
               Inl msg \<Rightarrow>
                 \<lparr>status = 500, body = JObj
                    [(js ''error'', JStr (js ''Failed to extract text from PDF URL'')),
                     (js ''message'', JStr msg),
                     (js ''success'', JBool False)]\<rparr>
             | Inr pd \<Rightarrow>
                 \<lparr>status = 200, body = extract_text_url_result e req_body u pd\<rparr>)]"
  by (simp add: extract_text_url_handler_def missing_url_response_def
      extract_text_url_catch_def res_json_def Let_def
      split: option.splits fetch_result.splits sum.splits)

lemma counts_consistent_upload: "counts_consistent (extract_text_result e file pd)"
  by (simp add: counts_consistent_def extract_text_result_def field_JObj js_eq_iff
      wordCount_tokens)

lemma counts_consistent_url: "counts_consistent (extract_text_url_result e req_body u pd)"
  by (simp add: counts_consistent_def extract_text_url_result_def field_JObj js_eq_iff
      wordCount_tokens)

section \<open>A sample run of the URL handler\<close>

lemma convert_drive_sample:
  "convertGoogleDriveUrl (js ''https://drive.google.com/file/d/abc/view'') =
     js ''https://drive.google.com/uc?export=download&id=abc''"
  by (simp add: convertGoogleDriveUrl_def driveRegex_at_def drive_prefix_def
      download_prefix_def is_id_char_def js_def)

lemma fetch_drive_sample:
  "fetch sample_env (js ''https://drive.google.com/uc?export=download&id=abc'') =
     FetchResponse 200 (js ''OK'') (Inr [0x25, 0x50, 0x44, 0x46])"
  by (simp add: sample_env_def sample_fetch_def)

lemma url_sample_responses:
  "sent_responses (extract_text_url_handler sample_env drive_request) =
     [\<lparr>status = 200,
       body = extract_text_url_result sample_env drive_request
                (js ''https://drive.google.com/file/d/abc/view'') sample_pdf\<rparr>]"
  by (simp add: extract_text_url_handler_responses drive_request_def js_eq_Nil
      convert_drive_sample fetch_drive_sample response_ok_def pdfParse_sample)

section \<open>C1: cleanup of the staged file\<close>

text \<open>
  C1, as the code has it. Every request to POST /extract-text ends with exactly one
  response, and that response is the one the client would get if no removal ever
  failed. If the request wrote a file to the uploads directory, the removal of that
  file is attempted before the response is sent: by the handler on its success path
  and on its failure paths, and by the upload middleware when it aborts the upload
  (a file that reaches the size limit, a second file). When the removal does not fail,
  the file is gone from the file system when the request is over; when the removal
  fails, the response is sent all the same and the file stays.
\<close>

theorem staged_upload_cleanup:
  "\<exists>before r.
     snd (post_extract_text e fs parts) = before @ [Sent r] \<and>
     sent_responses before = [] \<and>
     sent_responses (snd (post_extract_text e (fs\<lparr>unlink_error := Map.empty\<rparr>) parts)) = [r] \<and>
     (\<forall>p. Stored p \<in> set before \<longrightarrow>
        (case unlink_error fs p of
           None \<Rightarrow>
             Unlinked p \<in> set before \<and>
             files (fst (post_extract_text e fs parts)) p = None
         | Some msg \<Rightarrow> files (fst (post_extract_text e fs parts)) p \<noteq> None))"
proof -
  let ?run = "\<lambda>u. post_extract_text e (fs\<lparr>unlink_error := u\<rparr>) parts"
  let ?goal = "\<lambda>run :: (jsstring \<rightharpoonup> jsstring) \<Rightarrow> filesystem \<times> effect list.
     \<exists>before r.
       snd (run (unlink_error fs)) = before @ [Sent r] \<and>
       sent_responses before = [] \<and>
       sent_responses (snd (run Map.empty)) = [r] \<and>
       (\<forall>p. Stored p \<in> set before \<longrightarrow>
          (case unlink_error fs p of
             None \<Rightarrow> Unlinked p \<in> set before \<and> files (fst (run (unlink_error fs))) p = None
           | Some msg \<Rightarrow> files (fst (run (unlink_error fs))) p \<noteq> None))"
  let ?real = "dropWhile (\<lambda>q. originalname q = []) parts"
  have up: "upload_single e fs' parts = upload_single e fs' ?real" for fs'
    by (rule upload_single_dropWhile)
  have "?goal ?run"
  proof (cases ?real)
    case Nil
    have "snd (?run u) =
        [] @ [Sent (hd (sent_responses (snd (extract_text_handler e fs None))))]" for u
      by (simp add: post_extract_text_def up Nil upload_single_Nil extract_text_handler_def
          res_json_def)
    then show ?thesis by (rule unstaged_run) simp_all
  next
    case (Cons p rest)
    then have named: "originalname p \<noteq> []"
      using hd_dropWhile [of "\<lambda>q. originalname q = []" parts] by simp
    let ?pth = "uploadsDir e @ js ''/'' @ storage_filename e p"
    let ?written = "take fileSize_limit (content p)"
    let ?f = "\<lparr>file_originalname = originalname p, file_size = length ?written,
               path = ?pth\<rparr>"
    let ?stage = "\<lambda>u. fs\<lparr>unlink_error := u, files := (files fs)(?pth \<mapsto> ?written)\<rparr>"
    have there: "files (?stage u) ?pth = Some ?written" for u by simp
    have locks: "unlink_error (?stage u) = u" for u by simp
    note first = upload_single_first [OF named, of e _ rest]
    consider
      (misnamed) "fieldname p \<noteq> js ''pdf''" |
      (refused) "fieldname p = js ''pdf''"
        "\<not> (mimetype p = js ''application/pdf'' \<or>
            toLowerCase (extname e (originalname p)) = js ''.pdf'')" |
      (aborted) err where "\<And>u. upload_single e (fs\<lparr>unlink_error := u\<rparr>) ?real =
          (fst (removeUploadedFiles (?stage u) [?f]),
           Stored ?pth # snd (removeUploadedFiles (?stage u) [?f]), Inl err)" |
      (handed) "\<And>u. upload_single e (fs\<lparr>unlink_error := u\<rparr>) ?real =
          (?stage u, [Stored ?pth], Inr (Some ?f))"
    proof (cases "fieldname p \<noteq> js ''pdf''")
      case True
      then show ?thesis by (rule misnamed)
    next
      case field: False
      show ?thesis
      proof (cases "mimetype p = js ''application/pdf'' \<or>
            toLowerCase (extname e (originalname p)) = js ''.pdf''")
        case False
        with field show ?thesis by (intro refused) simp_all
      next
        case accepted: True
        show ?thesis
        proof (cases "fileSize_limit \<le> length (content p)")
          case True
          with field accepted have "upload_single e (fs\<lparr>unlink_error := u\<rparr>) ?real =
            (fst (removeUploadedFiles (?stage u) [?f]),
             Stored ?pth # snd (removeUploadedFiles (?stage u) [?f]),
             Inl (MulterError (js ''LIMIT_FILE_SIZE'') (js ''File too large'')))" for u
            unfolding Cons first by (simp add: Let_def del: removeUploadedFiles.simps)
          then show ?thesis by (rule aborted)
        next
          case small: False
          show ?thesis
          proof (cases "\<forall>q\<in>set rest. originalname q = []")
            case True
            with field accepted small have "upload_single e (fs\<lparr>unlink_error := u\<rparr>) ?real =
              (?stage u, [Stored ?pth], Inr (Some ?f))" for u
              unfolding Cons first by (simp add: Let_def del: removeUploadedFiles.simps)
            then show ?thesis by (rule handed)
          next
            case False
            with field accepted small have "upload_single e (fs\<lparr>unlink_error := u\<rparr>) ?real =
              (fst (removeUploadedFiles (?stage u) [?f]),
               Stored ?pth # snd (removeUploadedFiles (?stage u) [?f]),
               Inl (MulterError (js ''LIMIT_UNEXPECTED_FILE'') (js ''Unexpected field'')))" for u
              unfolding Cons first by (simp add: Let_def del: removeUploadedFiles.simps)
            then show ?thesis by (rule aborted)
          qed
        qed
      qed
    qed
    then show ?thesis
    proof cases
      case misnamed
      let ?err = "MulterError (js ''LIMIT_UNEXPECTED_FILE'') (js ''Unexpected field'')"
      obtain pre r where mw: "error_middleware ?err = pre @ [Sent r]"
        "sent_responses pre = []" "\<forall>q. Stored q \<notin> set pre"
        using error_middleware_run [of ?err] by blast
      from misnamed have "snd (?run u) = pre @ [Sent r]" for u
        by (simp add: post_extract_text_def up Cons first mw)
      then show ?thesis using mw(2,3) by (rule unstaged_run)
    next
      case refused
      let ?err = "Error (js ''Only PDF files are allowed!'')"
      obtain pre r where mw: "error_middleware ?err = pre @ [Sent r]"
        "sent_responses pre = []" "\<forall>q. Stored q \<notin> set pre"
        using error_middleware_run [of ?err] by blast
      from refused have "snd (?run u) = pre @ [Sent r]" for u
        by (simp add: post_extract_text_def up Cons first mw)
      then show ?thesis using mw(2,3) by (rule unstaged_run)
    next
      case (aborted err)
      obtain post r where mw: "error_middleware err = post @ [Sent r]"
        "sent_responses post = []" "\<forall>q. Stored q \<notin> set post"
        using error_middleware_run [of err] by blast
      let ?rm = "\<lambda>u. removeUploadedFiles (?stage u) [?f]"
      have run: "?run u = (fst (?rm u), Stored ?pth # [] @ snd (?rm u) @ post @ [Sent r])" for u
        by (simp add: post_extract_text_def up aborted mw)
      have removed: "snd (?rm u) = [Unlinked ?pth] \<and> files (fst (?rm u)) ?pth = None"
        if "u ?pth = None" for u
        using removeUploadedFiles_removed [of "?stage u" ?f ?written] that by simp
      have failed: "sent_responses (snd (?rm u)) = [] \<and>
          (\<forall>q. Stored q \<notin> set (snd (?rm u))) \<and> files (fst (?rm u)) ?pth \<noteq> None"
        if "u ?pth = Some msg" for u msg
        using removeUploadedFiles_failed [of "?stage u" ?f ?written msg] that by simp
      show ?thesis
        by (rule staged_run [where rm = ?rm and pth = ?pth and pre = "[]" and post = post,
              OF run _ _ mw(2,3) removed failed]) simp_all
    next
      case handed
      have nonempty: "path ?f \<noteq> []" by (simp add: js_def)
      from extract_text_handler_run [OF nonempty, of e "?stage (unlink_error fs)"]
      obtain pre r where pre: "sent_responses pre = []" "\<forall>q. Stored q \<notin> set pre"
        and handler: "\<And>u. extract_text_handler e (?stage (unlink_error fs)\<lparr>unlink_error := u\<rparr>)
              (Some ?f) =
            (fst (cleanupFile (?stage (unlink_error fs)\<lparr>unlink_error := u\<rparr>) (path ?f)),
             pre @ snd (cleanupFile (?stage (unlink_error fs)\<lparr>unlink_error := u\<rparr>) (path ?f)) @
             [Sent r])"
        by blast
      have restage: "?stage (unlink_error fs)\<lparr>unlink_error := u\<rparr> = ?stage u" for u by simp
      let ?rm = "\<lambda>u. cleanupFile (?stage u) ?pth"
      have run: "?run u = (fst (?rm u), Stored ?pth # pre @ snd (?rm u) @ [] @ [Sent r])" for u
        using handler [of u] unfolding restage
        by (simp add: post_extract_text_def up handed)
      have removed: "snd (?rm u) = [Unlinked ?pth] \<and> files (fst (?rm u)) ?pth = None"
        if "u ?pth = None" for u
        using cleanupFile_removed [of "?stage u" ?pth ?written] that by simp
      have failed: "sent_responses (snd (?rm u)) = [] \<and>
          (\<forall>q. Stored q \<notin> set (snd (?rm u))) \<and> files (fst (?rm u)) ?pth \<noteq> None"
        if "u ?pth = Some msg" for u msg
        using cleanupFile_failed [of "?stage u" ?pth ?written msg] that by simp
      show ?thesis
        by (rule staged_run [where rm = ?rm and pth = ?pth and pre = pre and post = "[]",
              OF run pre _ _ removed failed]) simp_all
    qed
  qed
  moreover have "fs\<lparr>unlink_error := unlink_error fs\<rparr> = fs" by simp
  ultimately show ?thesis by (simp only:)
qed

theorem staged_upload_cleanup_witness:
  "(\<exists>before r.
      snd (post_extract_text sample_env empty_fs [pdf_part]) = before @ [Sent r] \<and>
      status r = 200 \<and>
      Stored sample_path \<in> set before \<and>
      Unlinked sample_path \<in> set before \<and>
      files (fst (post_extract_text sample_env empty_fs [pdf_part])) sample_path = None) \<and>
   (\<exists>before r.
      snd (post_extract_text sample_env empty_fs [pdf_part, pdf_part]) = before @ [Sent r] \<and>
      status r = 500 \<and>
      Stored sample_path \<in> set before \<and>
      Unlinked sample_path \<in> set before \<and>
      files (fst (post_extract_text sample_env empty_fs [pdf_part, pdf_part])) sample_path =
        None)"
proof -
  have free: "unlink_error empty_fs sample_path = None" by (simp add: empty_fs_def)
  have readable: "read_error empty_fs sample_path = None" by (simp add: empty_fs_def)
  have one: "snd (post_extract_text sample_env empty_fs [pdf_part]) =
      (Stored sample_path # snd (cleanupFile (staged empty_fs) sample_path)) @
      [Sent \<lparr>status = 200, body = extract_text_result sample_env staged_file sample_pdf\<rparr>]"
    by (simp add: post_extract_text_sample [OF readable] res_json_def)
  have two: "snd (post_extract_text sample_env empty_fs [pdf_part, pdf_part]) =
      [Stored sample_path, Unlinked sample_path,
       ConsoleError ''Unhandled error:'' (js ''Unexpected field'')] @
      [Sent \<lparr>status = 500, body = JObj
         [(js ''error'', JStr (js ''Internal server error'')),
          (js ''message'', JStr (js ''Something went wrong processing your request''))]\<rparr>]"
    by (simp add: second_part_sample res_json_def)
  from staged_upload_cleanup [of sample_env empty_fs "[pdf_part]"]
  obtain before r where
    a: "snd (post_extract_text sample_env empty_fs [pdf_part]) = before @ [Sent r]" and
    b: "\<forall>p. Stored p \<in> set before \<longrightarrow>
          (case unlink_error empty_fs p of
             None \<Rightarrow> Unlinked p \<in> set before \<and>
               files (fst (post_extract_text sample_env empty_fs [pdf_part])) p = None
           | Some msg \<Rightarrow> files (fst (post_extract_text sample_env empty_fs [pdf_part])) p \<noteq> None)"
    by blast
  from a one have "before = Stored sample_path # snd (cleanupFile (staged empty_fs) sample_path)"
    and "r = \<lparr>status = 200, body = extract_text_result sample_env staged_file sample_pdf\<rparr>"
    by simp_all
  then have a': "Stored sample_path \<in> set before" "status r = 200" by simp_all
  from b a'(1) have "case unlink_error empty_fs sample_path of
             None \<Rightarrow> Unlinked sample_path \<in> set before \<and>
               files (fst (post_extract_text sample_env empty_fs [pdf_part])) sample_path = None
           | Some msg \<Rightarrow>
               files (fst (post_extract_text sample_env empty_fs [pdf_part])) sample_path \<noteq> None"
    by blast
  with free have "Unlinked sample_path \<in> set before \<and>
      files (fst (post_extract_text sample_env empty_fs [pdf_part])) sample_path = None"
    by simp
  with a a' have first: "\<exists>before r.
      snd (post_extract_text sample_env empty_fs [pdf_part]) = before @ [Sent r] \<and>
      status r = 200 \<and>
      Stored sample_path \<in> set before \<and>
      Unlinked sample_path \<in> set before \<and>
      files (fst (post_extract_text sample_env empty_fs [pdf_part])) sample_path = None"
    by blast
  from staged_upload_cleanup [of sample_env empty_fs "[pdf_part, pdf_part]"]
  obtain before2 r2 where
    c: "snd (post_extract_text sample_env empty_fs [pdf_part, pdf_part]) = before2 @ [Sent r2]" and
    d: "\<forall>p. Stored p \<in> set before2 \<longrightarrow>
          (case unlink_error empty_fs p of
             None \<Rightarrow> Unlinked p \<in> set before2 \<and>
               files (fst (post_extract_text sample_env empty_fs [pdf_part, pdf_part])) p = None
           | Some msg \<Rightarrow>
               files (fst (post_extract_text sample_env empty_fs [pdf_part, pdf_part])) p \<noteq> None)"
    by blast
  from c two have "before2 = [Stored sample_path, Unlinked sample_path,
       ConsoleError ''Unhandled error:'' (js ''Unexpected field'')]"
    and "r2 = \<lparr>status = 500, body = JObj
         [(js ''error'', JStr (js ''Internal server error'')),
          (js ''message'', JStr (js ''Something went wrong processing your request''))]\<rparr>"
    by simp_all
  then have c': "Stored sample_path \<in> set before2" "status r2 = 500" by simp_all
  from d c'(1) have "case unlink_error empty_fs sample_path of
             None \<Rightarrow> Unlinked sample_path \<in> set before2 \<and>
               files (fst (post_extract_text sample_env empty_fs [pdf_part, pdf_part])) sample_path =
                 None
           | Some msg \<Rightarrow>
               files (fst (post_extract_text sample_env empty_fs [pdf_part, pdf_part])) sample_path \<noteq>
                 None"
    by blast
  with free have "Unlinked sample_path \<in> set before2 \<and>
      files (fst (post_extract_text sample_env empty_fs [pdf_part, pdf_part])) sample_path = None"
    by simp
  with c c' have second: "\<exists>before r.
      snd (post_extract_text sample_env empty_fs [pdf_part, pdf_part]) = before @ [Sent r] \<and>
      status r = 500 \<and>
      Stored sample_path \<in> set before \<and>
      Unlinked sample_path \<in> set before \<and>
      files (fst (post_extract_text sample_env empty_fs [pdf_part, pdf_part])) sample_path =
        None"
    by blast
  from first second show ?thesis by (rule conjI)
qed

text \<open>
  C1 as stated fails when the removal itself fails: the client gets its 200 response
  and the stored file is still in the uploads directory.
\<close>

theorem staged_upload_left_behind:
  "upload_single sample_env locked_fs [pdf_part] =
     (staged locked_fs, [Stored sample_path], Inr (Some staged_file)) \<and>
   unlink_error locked_fs sample_path = Some (js ''EPERM: operation not permitted'') \<and>
   map status (sent_responses (snd (post_extract_text sample_env locked_fs [pdf_part]))) = [200] \<and>
   files (fst (post_extract_text sample_env locked_fs [pdf_part])) sample_path =
     Some [0x25, 0x50, 0x44, 0x46]"
proof -
  have locked: "unlink_error locked_fs sample_path = Some (js ''EPERM: operation not permitted'')"
    by (simp add: locked_fs_def)
  have readable: "read_error locked_fs sample_path = None"
    by (simp add: locked_fs_def empty_fs_def)
  have there: "files (staged locked_fs) sample_path = Some [0x25, 0x50, 0x44, 0x46]"
    by (simp add: staged_def)
  have "unlink_error (staged locked_fs) sample_path = Some (js ''EPERM: operation not permitted'')"
    using locked by (simp add: staged_def)
  from cleanupFile_failed [OF there this]
  have "post_extract_text sample_env locked_fs [pdf_part] =
          (staged locked_fs,
           [Stored sample_path,
            ConsoleError ''Error cleaning up file:'' (js ''EPERM: operation not permitted''),
            res_json 200 (extract_text_result sample_env staged_file sample_pdf)])"
    by (simp add: post_extract_text_sample [OF readable])
  with locked there show ?thesis
    by (simp add: upload_sample res_json_def)
qed

section \<open>C2: text length and word count\<close>

text \<open>
  C2. In every success response, of the upload handler and of the URL handler alike,
  \<open>textLength\<close> is the length of the \<open>text\<close> field and \<open>wordCount\<close> is the number of
  maximal runs of characters of \<open>text\<close> that are not white space, which is what is left
  of \<open>text.split(/\s+/)\<close> once the empty pieces are dropped; each such run is
  non-empty and free of white space, and a text that is empty or all white space has
  word count 0.
\<close>

theorem success_response_counts:
  "(r \<in> set (sent_responses (snd (extract_text_handler e fs req_file))) \<and> status r = 200
      \<longrightarrow> counts_consistent (body r)) \<and>
   (r \<in> set (sent_responses (extract_text_url_handler e req_body)) \<and> status r = 200
      \<longrightarrow> counts_consistent (body r)) \<and>
   filter (\<lambda>word. length word > 0) (split_whitespace t) = ws_tokens t \<and>
   (\<forall>w\<in>set (ws_tokens t). w \<noteq> [] \<and> (\<forall>c\<in>set w. \<not> is_space c)) \<and>
   ((\<forall>c\<in>set t. is_space c) \<longrightarrow> wordCount t = 0)"
proof (intro conjI impI ballI)
  assume "r \<in> set (sent_responses (snd (extract_text_handler e fs req_file))) \<and> status r = 200"
  then show "counts_consistent (body r)"
    by (auto simp: extract_text_handler_responses counts_consistent_upload
        split: option.splits sum.splits)
next
  assume "r \<in> set (sent_responses (extract_text_url_handler e req_body)) \<and> status r = 200"
  then show "counts_consistent (body r)"
    by (auto simp: extract_text_url_handler_responses counts_consistent_url
        split: option.splits sum.splits if_splits)
next
  show "filter (\<lambda>word. length word > 0) (split_whitespace t) = ws_tokens t"
    unfolding split_whitespace_def filter_split_from
    using ws_tokens_first [of t] by simp
next
  fix w assume "w \<in> set (ws_tokens t)"
  then show "w \<noteq> []" by (simp add: ws_tokens_nonempty)
next
  fix w c assume "w \<in> set (ws_tokens t)" "c \<in> set w"
  then show "\<not> is_space c" using ws_tokens_nonempty by blast
next
  assume "\<forall>c\<in>set t. is_space c"
  then show "wordCount t = 0" by (simp add: wordCount_tokens ws_tokens_Nil_iff)
qed

theorem success_response_counts_witness:
  "sent_responses (snd (post_extract_text sample_env empty_fs [pdf_part])) =
     [\<lparr>status = 200, body = extract_text_result sample_env staged_file sample_pdf\<rparr>] \<and>
   counts_consistent (extract_text_result sample_env staged_file sample_pdf) \<and>
   field (extract_text_result sample_env staged_file sample_pdf) ''text'' =
     Some (JStr (js ''Hello  world'')) \<and>
   field (extract_text_result sample_env staged_file sample_pdf) ''textLength'' =
     Some (JNum 12) \<and>
   field (extract_text_result sample_env staged_file sample_pdf) ''wordCount'' =
     Some (JNum 2) \<and>
   counts_consistent
     (extract_text_url_result sample_env drive_request
        (js ''https://drive.google.com/file/d/abc/view'') sample_pdf) \<and>
   wordCount [0x20, 0x09, 0xA0, 0x2028] = 0"
proof -
  let ?u = "\<lparr>status = 200,
       body = extract_text_url_result sample_env drive_request
                (js ''https://drive.google.com/file/d/abc/view'') sample_pdf\<rparr>"
  from success_response_counts [of ?u sample_env _ _ drive_request]
  have by_url: "counts_consistent
     (extract_text_url_result sample_env drive_request
        (js ''https://drive.google.com/file/d/abc/view'') sample_pdf)"
    by (simp add: url_sample_responses)
  let ?r = "\<lparr>status = 200, body = extract_text_result sample_env staged_file sample_pdf\<rparr>"
  have readable: "read_error empty_fs sample_path = None" by (simp add: empty_fs_def)
  have sent: "sent_responses (snd (post_extract_text sample_env empty_fs [pdf_part])) = [?r]"
    by (simp add: post_extract_text_sample [OF readable] sent_responses_append
        cleanupFile_sends_nothing res_json_def)
  have handler: "sent_responses (snd (post_extract_text sample_env empty_fs [pdf_part])) =
      sent_responses (snd (extract_text_handler sample_env (staged empty_fs) (Some staged_file)))"
    by (simp add: post_extract_text_def upload_sample split_beta)
  have spaces: "\<forall>c\<in>set [0x20, 0x09, 0xA0, 0x2028 :: jschar]. is_space c"
    by (simp add: is_space_def)
  note inst = success_response_counts [of ?r sample_env "staged empty_fs" "Some staged_file"
      _ "[0x20, 0x09, 0xA0, 0x2028]"]
  from inst sent handler have consistent:
    "counts_consistent (extract_text_result sample_env staged_file sample_pdf)" by simp
  from inst spaces have zero: "wordCount [0x20, 0x09, 0xA0, 0x2028] = 0" by blast
  have text_field: "field (extract_text_result sample_env staged_file sample_pdf) ''text'' =
      Some (JStr (js ''Hello  world''))"
    by (simp add: extract_text_result_def field_JObj js_eq_iff sample_pdf_def)
  have len: "length (js ''Hello  world'') = 12" by (simp add: length_js)
  have toks: "ws_tokens (js ''Hello  world'') = [js ''Hello'', js ''world'']"
    by (simp add: js_def is_space_def)
  from consistent text_field len toks
  have "field (extract_text_result sample_env staged_file sample_pdf) ''textLength'' =
          Some (JNum 12) \<and>
        field (extract_text_result sample_env staged_file sample_pdf) ''wordCount'' =
          Some (JNum 2)"
    by (simp add: counts_consistent_def)
  with sent consistent text_field zero by_url show ?thesis by simp
qed

section \<open>C3: rewriting Google Drive links\<close>

text \<open>
  C3. \<open>convertGoogleDriveUrl\<close> is a total function from strings to strings; the model
  has no error branch because neither \<open>String.prototype.match\<close> nor the template
  literal can throw on a string. If the string holds, at some offset, the text
  \<open>https://drive.google.com/file/d/<ID>\<close> with a non-empty identifier of letters,
  digits, underscore and hyphen (the regular expression is not anchored, and the
  leftmost match with its longest identifier is the one taken), the result is
  \<open>https://drive.google.com/uc?export=download&id=<ID>\<close>; a string with no such
  occurrence is returned unchanged.
\<close>

theorem convertGoogleDriveUrl_spec:
  "((\<forall>i ident. \<not> drive_link_at u i ident) \<longrightarrow> convertGoogleDriveUrl u = u) \<and>
   (drive_link_at u i ident \<and> (\<forall>j<i. \<forall>d. \<not> drive_link_at u j d) \<longrightarrow>
      convertGoogleDriveUrl u = download_prefix @ ident)"
proof (intro conjI impI)
  assume "\<forall>i ident. \<not> drive_link_at u i ident"
  then have "\<forall>i. driveRegex_at (drop i u) = None"
    by (simp add: driveRegex_at_drop_None)
  then have "driveRegex_match u = None" by (simp add: driveRegex_match_None)
  then show "convertGoogleDriveUrl u = u" by (simp add: convertGoogleDriveUrl_def)
next
  assume a: "drive_link_at u i ident \<and> (\<forall>j<i. \<forall>d. \<not> drive_link_at u j d)"
  then have "driveRegex_at (drop i u) = Some ident"
    by (simp add: driveRegex_at_drop_iff)
  moreover from a have "\<forall>j<i. driveRegex_at (drop j u) = None"
    by (simp add: driveRegex_at_drop_None)
  ultimately have "driveRegex_match u = Some ident" by (rule driveRegex_match_first)
  then show "convertGoogleDriveUrl u = download_prefix @ ident"
    by (simp add: convertGoogleDriveUrl_def)
qed

theorem convertGoogleDriveUrl_spec_witness:
  "drive_link_at
     (js ''https://drive.google.com/file/d/1O5HE9A5OLevbdZ3VxOFi5v3agcJOuMLk/view?usp=drive_link'')
     0 (js ''1O5HE9A5OLevbdZ3VxOFi5v3agcJOuMLk'') \<and>
   convertGoogleDriveUrl
     (js ''https://drive.google.com/file/d/1O5HE9A5OLevbdZ3VxOFi5v3agcJOuMLk/view?usp=drive_link'') =
     js ''https://drive.google.com/uc?export=download&id=1O5HE9A5OLevbdZ3VxOFi5v3agcJOuMLk'' \<and>
   convertGoogleDriveUrl (js ''https://example.com/document.pdf'') =
     js ''https://example.com/document.pdf''"
proof -
  let ?link = "js ''https://drive.google.com/file/d/1O5HE9A5OLevbdZ3VxOFi5v3agcJOuMLk/view?usp=drive_link''"
  let ?ident = "js ''1O5HE9A5OLevbdZ3VxOFi5v3agcJOuMLk''"
  let ?plain = "js ''https://example.com/document.pdf''"
  have link: "drive_link_at ?link 0 ?ident"
    by (simp add: js_def drive_link_at_def drive_prefix_def is_id_char_def)
  have "driveRegex_match ?plain = None"
    by (simp add: js_def driveRegex_at_def drive_prefix_def)
  then have none: "\<forall>i ident. \<not> drive_link_at ?plain i ident"
    by (simp add: driveRegex_match_None driveRegex_at_drop_None)
  have first: "\<forall>j<0::nat. \<forall>d. \<not> drive_link_at ?link j d" by simp
  from convertGoogleDriveUrl_spec [of ?link 0 ?ident] link first
  have "convertGoogleDriveUrl ?link = download_prefix @ ?ident" by blast
  moreover have "download_prefix @ ?ident =
      js ''https://drive.google.com/uc?export=download&id=1O5HE9A5OLevbdZ3VxOFi5v3agcJOuMLk''"
    by (simp add: download_prefix_def js_def)
  moreover from convertGoogleDriveUrl_spec [of ?plain] none
  have "convertGoogleDriveUrl ?plain = ?plain" by blast
  ultimately show ?thesis using link by simp
qed

section \<open>C4: validation of an upload\<close>

lemma removeUploadedFiles_sends_nothing:
  "sent_responses (snd (removeUploadedFiles fs uploaded)) = []"
  by (induction uploaded arbitrary: fs) (simp_all add: split_beta split: sum.splits)

lemma nameless_parts_response:
  assumes "\<forall>q\<in>set parts. originalname q = []"
  shows \<open>post_extract_text e fs parts =
     (fs, [res_json 400 (JObj
             [(js ''error'', JStr (js ''No PDF file uploaded'')),
              (js ''message'', JStr (js ''Please upload a PDF file using the "pdf" field''))])])\<close>
proof -
  from assms have "upload_single e fs parts = (fs, [], Inr None)"
    by (simp add: upload_single_def multer_parts_nameless)
  then show ?thesis by (simp add: post_extract_text_def extract_text_handler_def)
qed

lemma misnamed_part_response:
  assumes "originalname p \<noteq> []" and "fieldname p \<noteq> js ''pdf''"
  shows "post_extract_text e fs (p # rest) =
     (fs,
      [ConsoleError ''Unhandled error:'' (js ''Unexpected field''),
       res_json 500 (JObj
         [(js ''error'', JStr (js ''Internal server error'')),
          (js ''message'', JStr (js ''Something went wrong processing your request''))])])"
proof -
  from assms have "upload_single e fs (p # rest) =
      (fs, [], Inl (MulterError (js ''LIMIT_UNEXPECTED_FILE'') (js ''Unexpected field'')))"
    by (simp add: upload_single_first)
  then show ?thesis by (simp add: post_extract_text_def error_middleware_def js_eq_iff)
qed

lemma size_limit_response:
  assumes "originalname p \<noteq> []" and "fieldname p = js ''pdf''"
    and "mimetype p = js ''application/pdf'' \<or>
         toLowerCase (extname e (originalname p)) = js ''.pdf''"
    and "10 * 1024 * 1024 \<le> length (content p)"
  shows "sent_responses (snd (post_extract_text e fs (p # rest))) =
     [\<lparr>status = 400, body = JObj
        [(js ''error'', JStr (js ''File too large'')),
         (js ''message'', JStr (js ''PDF file size must be less than 10MB''))]\<rparr>]"
proof -
  from assms obtain fs1 removed where
    "upload_single e fs (p # rest) =
       (fst (removeUploadedFiles fs1 removed),
        Stored (uploadsDir e @ js ''/'' @ storage_filename e p) #
        snd (removeUploadedFiles fs1 removed),
        Inl (MulterError (js ''LIMIT_FILE_SIZE'') (js ''File too large'')))"
    unfolding upload_single_first [OF assms(1)]
    by (simp add: fileSize_limit_def Let_def del: removeUploadedFiles.simps)
  then show ?thesis
    by (simp add: post_extract_text_def error_middleware_def sent_responses_append
        removeUploadedFiles_sends_nothing res_json_def del: removeUploadedFiles.simps)
qed

text \<open>
  C4, as the code has it. A request with no file part, or whose file parts all come
  without a file name (the upload middleware skips those), reaches the handler without
  \<open>req.file\<close> and is answered 400 "No PDF file uploaded". For a request whose only
  file part has a file name and is sent under the field \<open>pdf\<close>: if its content type is
  not \<open>application/pdf\<close> and the extension of its name, lower-cased, is not \<open>.pdf\<close>,
  the answer is 400 "Only PDF files are allowed" and nothing is written; if it passes
  that check and is 10 MiB long or longer, the answer is 400 "PDF file size must be
  less than 10MB"; if it passes that check and is shorter than 10 MiB, it is stored in
  the uploads directory under the name the storage gives it and handed to the handler
  as \<open>req.file\<close>, with its name and its size.
\<close>

theorem upload_validation:
  \<open>((\<forall>q\<in>set parts. originalname q = []) \<longrightarrow>
      post_extract_text e fs parts =
        (fs, [res_json 400 (JObj
                [(js ''error'', JStr (js ''No PDF file uploaded'')),
                 (js ''message'',
                  JStr (js ''Please upload a PDF file using the "pdf" field''))])])) \<and>
   (originalname p \<noteq> [] \<and> fieldname p = js ''pdf'' \<and>
    mimetype p \<noteq> js ''application/pdf'' \<and>
    toLowerCase (extname e (originalname p)) \<noteq> js ''.pdf'' \<longrightarrow>
      post_extract_text e fs [p] =
        (fs, [res_json 400 (JObj
                [(js ''error'', JStr (js ''Invalid file type'')),
                 (js ''message'', JStr (js ''Only PDF files are allowed''))])])) \<and>
   (originalname p \<noteq> [] \<and> fieldname p = js ''pdf'' \<and>
    (mimetype p = js ''application/pdf'' \<or>
     toLowerCase (extname e (originalname p)) = js ''.pdf'') \<and>
    10 * 1024 * 1024 \<le> length (content p) \<longrightarrow>
      sent_responses (snd (post_extract_text e fs [p])) =
        [\<lparr>status = 400, body = JObj
           [(js ''error'', JStr (js ''File too large'')),
            (js ''message'', JStr (js ''PDF file size must be less than 10MB''))]\<rparr>]) \<and>
   (originalname p \<noteq> [] \<and> fieldname p = js ''pdf'' \<and>
    (mimetype p = js ''application/pdf'' \<or>
     toLowerCase (extname e (originalname p)) = js ''.pdf'') \<and>
    length (content p) < 10 * 1024 * 1024 \<longrightarrow>
      (\<exists>fs1 file.
         upload_single e fs [p] = (fs1, [Stored (path file)], Inr (Some file)) \<and>
         file_originalname file = originalname p \<and>
         file_size file = length (content p) \<and>
         path file = uploadsDir e @ js ''/'' @ fieldname p @ js ''-'' @ uniqueSuffix e @
                     extname e (originalname p) \<and>
         files fs1 (path file) = Some (content p) \<and>
         post_extract_text e fs [p] =
           (fst (extract_text_handler e fs1 (Some file)),
            Stored (path file) # snd (extract_text_handler e fs1 (Some file)))))\<close>
proof (intro conjI impI)
  assume "\<forall>q\<in>set parts. originalname q = []"
  then show \<open>post_extract_text e fs parts =
     (fs, [res_json 400 (JObj
             [(js ''error'', JStr (js ''No PDF file uploaded'')),
              (js ''message'', JStr (js ''Please upload a PDF file using the "pdf" field''))])])\<close>
    by (rule nameless_parts_response)
next
  assume a: "originalname p \<noteq> [] \<and> fieldname p = js ''pdf'' \<and>
    mimetype p \<noteq> js ''application/pdf'' \<and>
    toLowerCase (extname e (originalname p)) \<noteq> js ''.pdf''"
  then have named: "originalname p \<noteq> []" by simp
  from a have "upload_single e fs [p] = (fs, [], Inl (Error (js ''Only PDF files are allowed!'')))"
    unfolding upload_single_first [OF named] by simp
  then show "post_extract_text e fs [p] =
        (fs, [res_json 400 (JObj
                [(js ''error'', JStr (js ''Invalid file type'')),
                 (js ''message'', JStr (js ''Only PDF files are allowed''))])])"
    by (simp add: post_extract_text_def error_middleware_def js_eq_iff)
next
  assume "originalname p \<noteq> [] \<and> fieldname p = js ''pdf'' \<and>
    (mimetype p = js ''application/pdf'' \<or>
     toLowerCase (extname e (originalname p)) = js ''.pdf'') \<and>
    10 * 1024 * 1024 \<le> length (content p)"
  then show "sent_responses (snd (post_extract_text e fs [p])) =
        [\<lparr>status = 400, body = JObj
           [(js ''error'', JStr (js ''File too large'')),
            (js ''message'', JStr (js ''PDF file size must be less than 10MB''))]\<rparr>]"
    by (intro size_limit_response) simp_all
next
  assume a: "originalname p \<noteq> [] \<and> fieldname p = js ''pdf'' \<and>
    (mimetype p = js ''application/pdf'' \<or>
     toLowerCase (extname e (originalname p)) = js ''.pdf'') \<and>
    length (content p) < 10 * 1024 * 1024"
  then have named: "originalname p \<noteq> []" by simp
  let ?path = "uploadsDir e @ js ''/'' @ storage_filename e p"
  let ?fs1 = "fs\<lparr>files := (files fs)(?path \<mapsto> content p)\<rparr>"
  let ?file = "\<lparr>file_originalname = originalname p, file_size = length (content p),
                path = ?path\<rparr>"
  from a have whole: "take fileSize_limit (content p) = content p"
    by (simp add: fileSize_limit_def)
  from a have below: "\<not> fileSize_limit \<le> length (content p)"
    by (simp add: fileSize_limit_def)
  from a have up: "upload_single e fs [p] = (?fs1, [Stored ?path], Inr (Some ?file))"
    unfolding upload_single_first [OF named] by (simp add: Let_def whole below)
  then have run: "post_extract_text e fs [p] =
      (fst (extract_text_handler e ?fs1 (Some ?file)),
       Stored ?path # snd (extract_text_handler e ?fs1 (Some ?file)))"
    by (simp add: post_extract_text_def split_beta)
  from a have name: "?path = uploadsDir e @ js ''/'' @ fieldname p @ js ''-'' @
      uniqueSuffix e @ extname e (originalname p)"
    by (simp add: storage_filename_def)
  have "upload_single e fs [p] = (?fs1, [Stored (path ?file)], Inr (Some ?file)) \<and>
         file_originalname ?file = originalname p \<and>
         file_size ?file = length (content p) \<and>
         path ?file = uploadsDir e @ js ''/'' @ fieldname p @ js ''-'' @ uniqueSuffix e @
                     extname e (originalname p) \<and>
         files ?fs1 (path ?file) = Some (content p) \<and>
         post_extract_text e fs [p] =
           (fst (extract_text_handler e ?fs1 (Some ?file)),
            Stored (path ?file) # snd (extract_text_handler e ?fs1 (Some ?file)))"
    using up run name by simp
  then show "\<exists>fs1 file.
         upload_single e fs [p] = (fs1, [Stored (path file)], Inr (Some file)) \<and>
         file_originalname file = originalname p \<and>
         file_size file = length (content p) \<and>
         path file = uploadsDir e @ js ''/'' @ fieldname p @ js ''-'' @ uniqueSuffix e @
                     extname e (originalname p) \<and>
         files fs1 (path file) = Some (content p) \<and>
         post_extract_text e fs [p] =
           (fst (extract_text_handler e fs1 (Some file)),
            Stored (path file) # snd (extract_text_handler e fs1 (Some file)))"
    by (intro exI [of _ ?fs1] exI [of _ ?file])
qed

theorem upload_validation_witness:
  \<open>post_extract_text sample_env empty_fs [nameless_part] =
     (empty_fs, [res_json 400 (JObj
        [(js ''error'', JStr (js ''No PDF file uploaded'')),
         (js ''message'', JStr (js ''Please upload a PDF file using the "pdf" field''))])]) \<and>
   post_extract_text sample_env empty_fs [text_part] =
     (empty_fs, [res_json 400 (JObj
        [(js ''error'', JStr (js ''Invalid file type'')),
         (js ''message'', JStr (js ''Only PDF files are allowed''))])]) \<and>
   sent_responses (snd (post_extract_text sample_env empty_fs [oversize_part])) =
     [\<lparr>status = 400, body = JObj
        [(js ''error'', JStr (js ''File too large'')),
         (js ''message'', JStr (js ''PDF file size must be less than 10MB''))]\<rparr>] \<and>
   (\<exists>fs1 file.
      upload_single sample_env empty_fs [pdf_part] =
        (fs1, [Stored (path file)], Inr (Some file)) \<and>
      file_originalname file = js ''report.pdf'' \<and> file_size file = 4 \<and>
      path file = sample_path \<and>
      files fs1 sample_path = Some [0x25, 0x50, 0x44, 0x46] \<and>
      post_extract_text sample_env empty_fs [pdf_part] =
        (fst (extract_text_handler sample_env fs1 (Some file)),
         Stored sample_path # snd (extract_text_handler sample_env fs1 (Some file))))\<close>
proof -
  have nameless: "\<forall>q\<in>set [nameless_part]. originalname q = []"
    by (simp add: nameless_part_def)
  have "extname sample_env (originalname text_part) = js ''.txt''"
    by (simp add: text_part_def sample_env_def posix_extname_samples)
  moreover have "toLowerCase (js ''.txt'') = js ''.txt''"
    by (simp add: toLowerCase_def js_def)
  ultimately have ext: "toLowerCase (extname sample_env (originalname text_part)) = js ''.txt''"
    by simp
  have bad: "originalname text_part \<noteq> [] \<and> fieldname text_part = js ''pdf'' \<and>
      mimetype text_part \<noteq> js ''application/pdf'' \<and>
      toLowerCase (extname sample_env (originalname text_part)) \<noteq> js ''.pdf''"
    unfolding ext by (simp add: text_part_def js_eq_iff js_eq_Nil)
  have big: "originalname oversize_part \<noteq> [] \<and> fieldname oversize_part = js ''pdf'' \<and>
      (mimetype oversize_part = js ''application/pdf'' \<or>
       toLowerCase (extname sample_env (originalname oversize_part)) = js ''.pdf'') \<and>
      10 * 1024 * 1024 \<le> length (content oversize_part)"
    by (simp add: oversize_part_def pdf_part_def js_eq_Nil)
  have good: "originalname pdf_part \<noteq> [] \<and> fieldname pdf_part = js ''pdf'' \<and>
      (mimetype pdf_part = js ''application/pdf'' \<or>
       toLowerCase (extname sample_env (originalname pdf_part)) = js ''.pdf'') \<and>
      length (content pdf_part) < 10 * 1024 * 1024"
    by (simp add: pdf_part_def js_eq_Nil)
  from upload_validation [of "[nameless_part]" sample_env empty_fs] nameless
  have 0: \<open>post_extract_text sample_env empty_fs [nameless_part] =
     (empty_fs, [res_json 400 (JObj
        [(js ''error'', JStr (js ''No PDF file uploaded'')),
         (js ''message'', JStr (js ''Please upload a PDF file using the "pdf" field''))])])\<close>
    by (rule conjunct1 [THEN mp])
  from upload_validation [of _ sample_env empty_fs text_part] bad
  have 1: "post_extract_text sample_env empty_fs [text_part] =
     (empty_fs, [res_json 400 (JObj
        [(js ''error'', JStr (js ''Invalid file type'')),
         (js ''message'', JStr (js ''Only PDF files are allowed''))])])"
    by blast
  from upload_validation [of _ sample_env empty_fs oversize_part] big
  have 2: "sent_responses (snd (post_extract_text sample_env empty_fs [oversize_part])) =
     [\<lparr>status = 400, body = JObj
        [(js ''error'', JStr (js ''File too large'')),
         (js ''message'', JStr (js ''PDF file size must be less than 10MB''))]\<rparr>]"
    by blast
  from upload_validation [of _ sample_env empty_fs pdf_part] good
  obtain fs1 f where f:
    "upload_single sample_env empty_fs [pdf_part] = (fs1, [Stored (path f)], Inr (Some f))"
    "file_originalname f = originalname pdf_part"
    "file_size f = length (content pdf_part)"
    "path f = uploadsDir sample_env @ js ''/'' @ fieldname pdf_part @ js ''-'' @
       uniqueSuffix sample_env @ extname sample_env (originalname pdf_part)"
    "files fs1 (path f) = Some (content pdf_part)"
    "post_extract_text sample_env empty_fs [pdf_part] =
       (fst (extract_text_handler sample_env fs1 (Some f)),
        Stored (path f) # snd (extract_text_handler sample_env fs1 (Some f)))"
    by blast
  from f(4) have at_path: "path f = sample_path"
    using sample_storage_path by (simp add: storage_filename_def)
  from f at_path have 3: "\<exists>fs1 file.
      upload_single sample_env empty_fs [pdf_part] =
        (fs1, [Stored (path file)], Inr (Some file)) \<and>
      file_originalname file = js ''report.pdf'' \<and> file_size file = 4 \<and>
      path file = sample_path \<and>
      files fs1 sample_path = Some [0x25, 0x50, 0x44, 0x46] \<and>
      post_extract_text sample_env empty_fs [pdf_part] =
        (fst (extract_text_handler sample_env fs1 (Some file)),
         Stored sample_path # snd (extract_text_handler sample_env fs1 (Some file)))"
    by (intro exI [of _ fs1] exI [of _ f]) (simp add: pdf_part_fields)
  from 0 1 2 3 show ?thesis by (intro conjI)
qed

text \<open>
  C4 as stated fails in two places. A request that has no file under the field \<open>pdf\<close>
  because its file was sent under another field name is not answered 400: the upload
  middleware rejects the part as unexpected, and the error middleware answers 500. And
  a PDF of exactly 10 MiB, which does not exceed 10 MiB, is not accepted: the upload
  middleware stops a file as soon as it has reached the limit.
\<close>

theorem misnamed_field_is_internal_error:
  "fieldname misnamed_part \<noteq> js ''pdf'' \<and>
   post_extract_text sample_env empty_fs [misnamed_part] =
     (empty_fs,
      [ConsoleError ''Unhandled error:'' (js ''Unexpected field''),
       res_json 500 (JObj
         [(js ''error'', JStr (js ''Internal server error'')),
          (js ''message'', JStr (js ''Something went wrong processing your request''))])]) \<and>
   mimetype exact_limit_part = js ''application/pdf'' \<and>
   length (content exact_limit_part) = 10 * 1024 * 1024 \<and>
   sent_responses (snd (post_extract_text sample_env empty_fs [exact_limit_part])) =
     [\<lparr>status = 400, body = JObj
        [(js ''error'', JStr (js ''File too large'')),
         (js ''message'', JStr (js ''PDF file size must be less than 10MB''))]\<rparr>]"
proof -
  have field: "fieldname misnamed_part \<noteq> js ''pdf''"
    by (simp add: misnamed_part_def js_eq_iff)
  have "originalname misnamed_part \<noteq> []"
    by (simp add: misnamed_part_def pdf_part_def js_eq_Nil)
  from misnamed_part_response [OF this field]
  have misnamed: "post_extract_text sample_env empty_fs [misnamed_part] =
     (empty_fs,
      [ConsoleError ''Unhandled error:'' (js ''Unexpected field''),
       res_json 500 (JObj
         [(js ''error'', JStr (js ''Internal server error'')),
          (js ''message'', JStr (js ''Something went wrong processing your request''))])])" .
  have kind: "mimetype exact_limit_part = js ''application/pdf''"
    by (simp add: exact_limit_part_def pdf_part_def)
  have size: "length (content exact_limit_part) = 10 * 1024 * 1024"
    by (simp add: exact_limit_part_def)
  have "sent_responses (snd (post_extract_text sample_env empty_fs [exact_limit_part])) =
     [\<lparr>status = 400, body = JObj
        [(js ''error'', JStr (js ''File too large'')),
         (js ''message'', JStr (js ''PDF file size must be less than 10MB''))]\<rparr>]"
    by (rule size_limit_response)
      (simp_all add: exact_limit_part_def pdf_part_def js_eq_Nil)
  with field misnamed kind size show ?thesis by (intro conjI)
qed

section \<open>C5: failures of the URL handler\<close>

text \<open>
  C5. When the \<open>url\<close> field is missing (or empty), the handler answers 400 with the
  message that asks for a "url" field, and that response is all it does: nothing is
  fetched. When the fetch of the resolved URL answers with a status outside 200 to 299,
  the handler answers 500 and the message is \<open>Failed to fetch PDF: \<close> followed by the
  upstream status text; when the fetch itself fails, it answers 500 and the message is
  the text of that error.
\<close>

theorem url_mode_failures:
  \<open>(\<not> truthy (url req_body) \<longrightarrow>
      extract_text_url_handler e req_body =
        [res_json 400 (JObj
           [(js ''error'', JStr (js ''No PDF URL provided'')),
            (js ''message'', JStr (js ''Please provide a "url" field with the PDF URL''))])]) \<and>
   (url req_body = Some u \<and> u \<noteq> [] \<and>
    fetch e (convertGoogleDriveUrl u) = FetchResponse code statusText arrayBuffer \<and>
    \<not> (200 \<le> code \<and> code \<le> 299) \<longrightarrow>
      extract_text_url_handler e req_body =
        [Fetched (convertGoogleDriveUrl u),
         ConsoleError ''PDF URL processing error:'' (js ''Failed to fetch PDF: '' @ statusText),
         res_json 500 (JObj
           [(js ''error'', JStr (js ''Failed to extract text from PDF URL'')),
            (js ''message'', JStr (js ''Failed to fetch PDF: '' @ statusText)),
            (js ''success'', JBool False)])]) \<and>
   (url req_body = Some u \<and> u \<noteq> [] \<and>
    fetch e (convertGoogleDriveUrl u) = FetchRejected msg \<longrightarrow>
      extract_text_url_handler e req_body =
        [Fetched (convertGoogleDriveUrl u),
         ConsoleError ''PDF URL processing error:'' msg,
         res_json 500 (JObj
           [(js ''error'', JStr (js ''Failed to extract text from PDF URL'')),
            (js ''message'', JStr msg),
            (js ''success'', JBool False)])])\<close>
proof (intro conjI impI)
  assume "\<not> truthy (url req_body)"
  then show \<open>extract_text_url_handler e req_body =
        [res_json 400 (JObj
           [(js ''error'', JStr (js ''No PDF URL provided'')),
            (js ''message'', JStr (js ''Please provide a "url" field with the PDF URL''))])]\<close>
    by (simp add: truthy_def extract_text_url_handler_def missing_url_response_def
        split: option.splits)
next
  assume "url req_body = Some u \<and> u \<noteq> [] \<and>
    fetch e (convertGoogleDriveUrl u) = FetchResponse code statusText arrayBuffer \<and>
    \<not> (200 \<le> code \<and> code \<le> 299)"
  then show "extract_text_url_handler e req_body =
        [Fetched (convertGoogleDriveUrl u),
         ConsoleError ''PDF URL processing error:'' (js ''Failed to fetch PDF: '' @ statusText),
         res_json 500 (JObj
           [(js ''error'', JStr (js ''Failed to extract text from PDF URL'')),
            (js ''message'', JStr (js ''Failed to fetch PDF: '' @ statusText)),
            (js ''success'', JBool False)])]"
    by (simp add: extract_text_url_handler_def extract_text_url_catch_def response_ok_def)
next
  assume "url req_body = Some u \<and> u \<noteq> [] \<and>
    fetch e (convertGoogleDriveUrl u) = FetchRejected msg"
  then show "extract_text_url_handler e req_body =
        [Fetched (convertGoogleDriveUrl u),
         ConsoleError ''PDF URL processing error:'' msg,
         res_json 500 (JObj
           [(js ''error'', JStr (js ''Failed to extract text from PDF URL'')),
            (js ''message'', JStr msg),
            (js ''success'', JBool False)])]"
    by (simp add: extract_text_url_handler_def extract_text_url_catch_def)
qed

theorem url_mode_failures_witness:
  \<open>extract_text_url_handler sample_env \<lparr>url = None, filename = Some (js ''a.pdf'')\<rparr> =
     [res_json 400 (JObj
        [(js ''error'', JStr (js ''No PDF URL provided'')),
         (js ''message'', JStr (js ''Please provide a "url" field with the PDF URL''))])] \<and>
   extract_text_url_handler sample_env
       \<lparr>url = Some (js ''https://example.com/missing.pdf''), filename = None\<rparr> =
     [Fetched (js ''https://example.com/missing.pdf''),
      ConsoleError ''PDF URL processing error:'' (js ''Failed to fetch PDF: Not Found''),
      res_json 500 (JObj
        [(js ''error'', JStr (js ''Failed to extract text from PDF URL'')),
         (js ''message'', JStr (js ''Failed to fetch PDF: Not Found'')),
         (js ''success'', JBool False)])] \<and>
   extract_text_url_handler sample_env
       \<lparr>url = Some (js ''https://nowhere.invalid/x.pdf''), filename = None\<rparr> =
     [Fetched (js ''https://nowhere.invalid/x.pdf''),
      ConsoleError ''PDF URL processing error:'' (js ''fetch failed''),
      res_json 500 (JObj
        [(js ''error'', JStr (js ''Failed to extract text from PDF URL'')),
         (js ''message'', JStr (js ''fetch failed'')),
         (js ''success'', JBool False)])]\<close>
proof -
  let ?missing = "js ''https://example.com/missing.pdf''"
  let ?nowhere = "js ''https://nowhere.invalid/x.pdf''"
  have plain1: "convertGoogleDriveUrl ?missing = ?missing"
    by (simp add: convertGoogleDriveUrl_def driveRegex_at_def drive_prefix_def js_def)
  have plain2: "convertGoogleDriveUrl ?nowhere = ?nowhere"
    by (simp add: convertGoogleDriveUrl_def driveRegex_at_def drive_prefix_def js_def)
  have f1: "fetch sample_env ?missing = FetchResponse 404 (js ''Not Found'') (Inr [])"
    by (simp add: sample_env_def sample_fetch_def js_eq_iff)
  have f2: "fetch sample_env ?nowhere = FetchRejected (js ''fetch failed'')"
    by (simp add: sample_env_def sample_fetch_def js_eq_iff)
  have none: "\<not> truthy (url \<lparr>url = None, filename = Some (js ''a.pdf'')\<rparr>)"
    by (simp add: truthy_def)
  have msg: "js ''Failed to fetch PDF: '' @ js ''Not Found'' = js ''Failed to fetch PDF: Not Found''"
    by (simp add: js_def)
  have nonempty: "?missing \<noteq> []" "?nowhere \<noteq> []" by (simp_all add: js_def)
  from url_mode_failures [of "\<lparr>url = None, filename = Some (js ''a.pdf'')\<rparr>" sample_env] none
  have 1: \<open>extract_text_url_handler sample_env \<lparr>url = None, filename = Some (js ''a.pdf'')\<rparr> =
     [res_json 400 (JObj
        [(js ''error'', JStr (js ''No PDF URL provided'')),
         (js ''message'', JStr (js ''Please provide a "url" field with the PDF URL''))])]\<close>
    by blast
  from url_mode_failures [of "\<lparr>url = Some ?missing, filename = None\<rparr>" sample_env ?missing
      404 "js ''Not Found''" "Inr []"] f1 nonempty
  have 2: "extract_text_url_handler sample_env \<lparr>url = Some ?missing, filename = None\<rparr> =
     [Fetched ?missing,
      ConsoleError ''PDF URL processing error:'' (js ''Failed to fetch PDF: Not Found''),
      res_json 500 (JObj
        [(js ''error'', JStr (js ''Failed to extract text from PDF URL'')),
         (js ''message'', JStr (js ''Failed to fetch PDF: Not Found'')),
         (js ''success'', JBool False)])]"
    by (simp add: plain1 msg)
  from url_mode_failures [of "\<lparr>url = Some ?nowhere, filename = None\<rparr>" sample_env ?nowhere
      _ _ _ "js ''fetch failed''"] f2 nonempty
  have 3: "extract_text_url_handler sample_env \<lparr>url = Some ?nowhere, filename = None\<rparr> =
     [Fetched ?nowhere,
      ConsoleError ''PDF URL processing error:'' (js ''fetch failed''),
      res_json 500 (JObj
        [(js ''error'', JStr (js ''Failed to extract text from PDF URL'')),
         (js ''message'', JStr (js ''fetch failed'')),
         (js ''success'', JBool False)])]"
    by (simp add: plain2)
  from 1 2 3 show ?thesis by blast
qed

section \<open>C6: the shape of failure responses\<close>

text \<open>
  C6 does not hold of the code. The 400 responses of the two extraction routes (no file,
  no URL, wrong file type, file too large) and the generic 500 of the error middleware
  carry \<open>error\<close> and \<open>message\<close> but no \<open>success\<close> field, whereas the 500 responses of
  the handlers' catch blocks and the 400 responses of the HMAC route carry
  \<open>success: false\<close>.
\<close>

theorem validation_failures_lack_success:
  "map (\<lambda>r. (status r, field (body r) ''success''))
     (sent_responses (snd (post_extract_text e fs []))) = [(400, None)] \<and>
   map (\<lambda>r. (status r, field (body r) ''success''))
     (sent_responses (extract_text_url_handler e \<lparr>url = None, filename = n\<rparr>)) = [(400, None)] \<and>
   map (\<lambda>r. (status r, field (body r) ''success''))
     (sent_responses (error_middleware (Error (js ''Only PDF files are allowed!'')))) =
     [(400, None)] \<and>
   map (\<lambda>r. (status r, field (body r) ''success''))
     (sent_responses (error_middleware (MulterError (js ''LIMIT_FILE_SIZE'') m))) =
     [(400, None)] \<and>
   map (\<lambda>r. (status r, field (body r) ''success''))
     (sent_responses (error_middleware (MulterError (js ''LIMIT_UNEXPECTED_FILE'') (js ''Unexpected field'')))) =
     [(500, None)] \<and>
   map (\<lambda>r. (status r, field (body r) ''success''))
     (sent_responses (snd (extract_text_catch fs req_file msg))) = [(500, Some (JBool False))] \<and>
   map (\<lambda>r. (status r, field (body r) ''success''))
     (sent_responses (generate_hmac_handler e \<lparr>data = None, secret = k\<rparr>)) =
     [(400, Some (JBool False))]"
proof (intro conjI)
  show "map (\<lambda>r. (status r, field (body r) ''success''))
     (sent_responses (snd (post_extract_text e fs []))) = [(400, None)]"
    by (simp add: post_extract_text_def upload_single_Nil extract_text_handler_def
        res_json_def field_JObj js_eq_iff)
  show "map (\<lambda>r. (status r, field (body r) ''success''))
     (sent_responses (extract_text_url_handler e \<lparr>url = None, filename = n\<rparr>)) = [(400, None)]"
    by (simp add: extract_text_url_handler_def missing_url_response_def
        res_json_def field_JObj js_eq_iff)
  show "map (\<lambda>r. (status r, field (body r) ''success''))
     (sent_responses (error_middleware (Error (js ''Only PDF files are allowed!'')))) =
     [(400, None)]"
    by (simp add: error_middleware_def res_json_def field_JObj js_eq_iff)
  show "map (\<lambda>r. (status r, field (body r) ''success''))
     (sent_responses (error_middleware (MulterError (js ''LIMIT_FILE_SIZE'') m))) =
     [(400, None)]"
    by (simp add: error_middleware_def res_json_def field_JObj js_eq_iff)
  show "map (\<lambda>r. (status r, field (body r) ''success''))
     (sent_responses (error_middleware (MulterError (js ''LIMIT_UNEXPECTED_FILE'') (js ''Unexpected field'')))) =
     [(500, None)]"
    by (simp add: error_middleware_def res_json_def field_JObj js_eq_iff)
  show "map (\<lambda>r. (status r, field (body r) ''success''))
     (sent_responses (snd (extract_text_catch fs req_file msg))) = [(500, Some (JBool False))]"
    by (simp add: extract_text_catch_responses field_JObj js_eq_iff)
  show "map (\<lambda>r. (status r, field (body r) ''success''))
     (sent_responses (generate_hmac_handler e \<lparr>data = None, secret = k\<rparr>)) =
     [(400, Some (JBool False))]"
    by (simp add: generate_hmac_handler_def missing_data_response_def missing_secret_response_def res_json_def field_JObj js_eq_iff)
qed

section \<open>C7: normalised metadata\<close>

text \<open>
  C7, as the code has it. In the success response of either handler, \<open>metadata.pages\<close>
  is the page count the parser reported, \<open>metadata.info\<close> is the parser's info
  dictionary, or the empty object when there is none, and \<open>metadata.version\<close> is the
  parser's version string when there is one and it is not empty, and \<open>Unknown\<close>
  otherwise.
\<close>

theorem metadata_normalised:
  "(readFileSync fs (path file) = Inr buf \<and> pdfParse e buf = Inr pd \<longrightarrow>
      map (\<lambda>r. (status r, field (body r) ''metadata''))
        (sent_responses (snd (extract_text_handler e fs (Some file)))) =
      [(200, Some (JObj
          [(js ''pages'', JNum (int (numpages pd))),
           (js ''info'', JObj (case pdf_info pd of None \<Rightarrow> [] | Some d \<Rightarrow> d)),
           (js ''version'',
            JStr (case pdf_version pd of
                    None \<Rightarrow> js ''Unknown''
                  | Some v \<Rightarrow> if v = [] then js ''Unknown'' else v))]))]) \<and>
   (url req_body = Some u \<and> u \<noteq> [] \<and>
    fetch e (convertGoogleDriveUrl u) = FetchResponse code statusText (Inr buf') \<and>
    200 \<le> code \<and> code \<le> 299 \<and> pdfParse e buf' = Inr pd' \<longrightarrow>
      map (\<lambda>r. (status r, field (body r) ''metadata''))
        (sent_responses (extract_text_url_handler e req_body)) =
      [(200, Some (JObj
          [(js ''pages'', JNum (int (numpages pd'))),
           (js ''info'', JObj (case pdf_info pd' of None \<Rightarrow> [] | Some d \<Rightarrow> d)),
           (js ''version'',
            JStr (case pdf_version pd' of
                    None \<Rightarrow> js ''Unknown''
                  | Some v \<Rightarrow> if v = [] then js ''Unknown'' else v))]))])"
proof (intro conjI impI)
  assume "readFileSync fs (path file) = Inr buf \<and> pdfParse e buf = Inr pd"
  then show "map (\<lambda>r. (status r, field (body r) ''metadata''))
        (sent_responses (snd (extract_text_handler e fs (Some file)))) =
      [(200, Some (JObj
          [(js ''pages'', JNum (int (numpages pd))),
           (js ''info'', JObj (case pdf_info pd of None \<Rightarrow> [] | Some d \<Rightarrow> d)),
           (js ''version'',
            JStr (case pdf_version pd of
                    None \<Rightarrow> js ''Unknown''
                  | Some v \<Rightarrow> if v = [] then js ''Unknown'' else v))]))]"
    by (simp add: extract_text_handler_responses extract_text_result_def field_JObj
        js_eq_iff or_default_def split: option.splits)
next
  assume "url req_body = Some u \<and> u \<noteq> [] \<and>
    fetch e (convertGoogleDriveUrl u) = FetchResponse code statusText (Inr buf') \<and>
    200 \<le> code \<and> code \<le> 299 \<and> pdfParse e buf' = Inr pd'"
  then show "map (\<lambda>r. (status r, field (body r) ''metadata''))
        (sent_responses (extract_text_url_handler e req_body)) =
      [(200, Some (JObj
          [(js ''pages'', JNum (int (numpages pd'))),
           (js ''info'', JObj (case pdf_info pd' of None \<Rightarrow> [] | Some d \<Rightarrow> d)),
           (js ''version'',
            JStr (case pdf_version pd' of
                    None \<Rightarrow> js ''Unknown''
                  | Some v \<Rightarrow> if v = [] then js ''Unknown'' else v))]))]"
    by (simp add: extract_text_url_handler_responses extract_text_url_result_def
        response_ok_def field_JObj js_eq_iff or_default_def split: option.splits)
qed

theorem metadata_normalised_witness:
  "map (\<lambda>r. (status r, field (body r) ''metadata''))
     (sent_responses (snd (extract_text_handler sample_env (staged empty_fs) (Some staged_file)))) =
     [(200, Some (JObj
         [(js ''pages'', JNum 1), (js ''info'', JObj []),
          (js ''version'', JStr (js ''1.10.100''))]))] \<and>
   map (\<lambda>r. (status r, field (body r) ''metadata''))
     (sent_responses (extract_text_url_handler sample_env drive_request)) =
     [(200, Some (JObj
         [(js ''pages'', JNum 1), (js ''info'', JObj []),
          (js ''version'', JStr (js ''1.10.100''))]))]"
proof -
  have read: "readFileSync (staged empty_fs) (path staged_file) = Inr [0x25, 0x50, 0x44, 0x46]"
    by (simp add: staged_file_def readFileSync_staged empty_fs_def)
  have fetched: "url drive_request = Some (js ''https://drive.google.com/file/d/abc/view'') \<and>
      js ''https://drive.google.com/file/d/abc/view'' \<noteq> [] \<and>
      fetch sample_env (convertGoogleDriveUrl (js ''https://drive.google.com/file/d/abc/view'')) =
        FetchResponse 200 (js ''OK'') (Inr [0x25, 0x50, 0x44, 0x46]) \<and>
      (200::nat) \<le> 200 \<and> (200::nat) \<le> 299"
    by (simp add: drive_request_def convert_drive_sample fetch_drive_sample js_eq_Nil)
  have version: "pdf_version sample_pdf = Some (js ''1.10.100'')" "pdf_info sample_pdf = None"
    "numpages sample_pdf = 1" "js ''1.10.100'' \<noteq> []"
    by (simp_all add: sample_pdf_def js_eq_Nil)
  from metadata_normalised [of "staged empty_fs" staged_file "[0x25, 0x50, 0x44, 0x46]"
      sample_env sample_pdf drive_request "js ''https://drive.google.com/file/d/abc/view''"
      200 "js ''OK''" "[0x25, 0x50, 0x44, 0x46]" sample_pdf]
    read fetched pdfParse_sample version
  show ?thesis by simp
qed

text \<open>
  C7 as stated fails for a parser output whose version string is present and empty: the
  response reports \<open>Unknown\<close>, not the parser's version string.
\<close>

theorem empty_version_reported_unknown:
  "pdf_version blank_version_pdf = Some [] \<and>
   pdfParse blank_version_env [0x25, 0x50, 0x44, 0x46] = Inr blank_version_pdf \<and>
   map (\<lambda>r. (status r, field (body r) ''metadata''))
     (sent_responses (extract_text_url_handler blank_version_env drive_request)) =
     [(200, Some (JObj
         [(js ''pages'', JNum 1), (js ''info'', JObj []),
          (js ''version'', JStr (js ''Unknown''))]))]"
proof -
  have "fetch blank_version_env (js ''https://drive.google.com/uc?export=download&id=abc'') =
      FetchResponse 200 (js ''OK'') (Inr [0x25, 0x50, 0x44, 0x46])"
    using fetch_drive_sample by (simp add: blank_version_env_def)
  then show ?thesis
    by (simp add: extract_text_url_handler_responses drive_request_def js_eq_Nil
        convert_drive_sample response_ok_def blank_version_env_def blank_version_pdf_def
        sample_pdf_def extract_text_url_result_def field_JObj js_eq_iff or_default_def)
qed

section \<open>C8: file size, URL and file name in a success response\<close>

text \<open>
  C8, as the code has it. The success response of the upload handler has \<open>fileSize\<close>,
  the size of the stored upload, the uploaded file's original name as \<open>filename\<close>, and
  no \<open>url\<close> field. The success response of the URL handler has \<open>url\<close>, which is the
  string the client sent and not the rewritten one that was fetched, no \<open>fileSize\<close>
  field, and as \<open>filename\<close> the file name of the request body when there is one and it
  is not empty, and \<open>Unknown\<close> otherwise; the name is not checked in any way.
\<close>

theorem success_source_fields:
  "(readFileSync fs (path file) = Inr buf \<and> pdfParse e buf = Inr pd \<longrightarrow>
      map (\<lambda>r. (status r, field (body r) ''filename'', field (body r) ''fileSize'',
                 field (body r) ''url''))
        (sent_responses (snd (extract_text_handler e fs (Some file)))) =
      [(200, Some (JStr (file_originalname file)), Some (JNum (int (file_size file))), None)]) \<and>
   (url req_body = Some u \<and> u \<noteq> [] \<and>
    fetch e (convertGoogleDriveUrl u) = FetchResponse code statusText (Inr buf') \<and>
    200 \<le> code \<and> code \<le> 299 \<and> pdfParse e buf' = Inr pd' \<longrightarrow>
      map (\<lambda>r. (status r, field (body r) ''filename'', field (body r) ''fileSize'',
                 field (body r) ''url''))
        (sent_responses (extract_text_url_handler e req_body)) =
      [(200,
        Some (JStr (case filename req_body of
                      None \<Rightarrow> js ''Unknown''
                    | Some n \<Rightarrow> if n = [] then js ''Unknown'' else n)),
        None, Some (JStr u))])"
proof (intro conjI impI)
  assume "readFileSync fs (path file) = Inr buf \<and> pdfParse e buf = Inr pd"
  then show "map (\<lambda>r. (status r, field (body r) ''filename'', field (body r) ''fileSize'',
                 field (body r) ''url''))
        (sent_responses (snd (extract_text_handler e fs (Some file)))) =
      [(200, Some (JStr (file_originalname file)), Some (JNum (int (file_size file))), None)]"
    by (simp add: extract_text_handler_responses extract_text_result_def field_JObj js_eq_iff)
next
  assume "url req_body = Some u \<and> u \<noteq> [] \<and>
    fetch e (convertGoogleDriveUrl u) = FetchResponse code statusText (Inr buf') \<and>
    200 \<le> code \<and> code \<le> 299 \<and> pdfParse e buf' = Inr pd'"
  then show "map (\<lambda>r. (status r, field (body r) ''filename'', field (body r) ''fileSize'',
                 field (body r) ''url''))
        (sent_responses (extract_text_url_handler e req_body)) =
      [(200,
        Some (JStr (case filename req_body of
                      None \<Rightarrow> js ''Unknown''
                    | Some n \<Rightarrow> if n = [] then js ''Unknown'' else n)),
        None, Some (JStr u))]"
    by (simp add: extract_text_url_handler_responses extract_text_url_result_def
        response_ok_def field_JObj js_eq_iff or_default_def split: option.splits)
qed

theorem success_source_fields_witness:
  "map (\<lambda>r. (status r, field (body r) ''filename'', field (body r) ''fileSize'',
              field (body r) ''url''))
     (sent_responses (snd (extract_text_handler sample_env (staged empty_fs) (Some staged_file)))) =
     [(200, Some (JStr (js ''report.pdf'')), Some (JNum 4), None)] \<and>
   convertGoogleDriveUrl (js ''https://drive.google.com/file/d/abc/view'') \<noteq>
     js ''https://drive.google.com/file/d/abc/view'' \<and>
   map (\<lambda>r. (status r, field (body r) ''filename'', field (body r) ''fileSize'',
              field (body r) ''url''))
     (sent_responses (extract_text_url_handler sample_env drive_request)) =
     [(200, Some (JStr (js ''cv.pdf'')), None,
       Some (JStr (js ''https://drive.google.com/file/d/abc/view'')))]"
proof -
  have read: "readFileSync (staged empty_fs) (path staged_file) = Inr [0x25, 0x50, 0x44, 0x46]"
    by (simp add: staged_file_def readFileSync_staged empty_fs_def)
  have fetched: "url drive_request = Some (js ''https://drive.google.com/file/d/abc/view'') \<and>
      js ''https://drive.google.com/file/d/abc/view'' \<noteq> [] \<and>
      fetch sample_env (convertGoogleDriveUrl (js ''https://drive.google.com/file/d/abc/view'')) =
        FetchResponse 200 (js ''OK'') (Inr [0x25, 0x50, 0x44, 0x46]) \<and>
      (200::nat) \<le> 200 \<and> (200::nat) \<le> 299"
    by (simp add: drive_request_def convert_drive_sample fetch_drive_sample js_eq_Nil)
  have rewritten: "convertGoogleDriveUrl (js ''https://drive.google.com/file/d/abc/view'') \<noteq>
      js ''https://drive.google.com/file/d/abc/view''"
    by (simp add: convert_drive_sample js_eq_iff)
  have names: "file_originalname staged_file = js ''report.pdf''" "file_size staged_file = 4"
    "filename drive_request = Some (js ''cv.pdf'')" "js ''cv.pdf'' \<noteq> []"
    by (simp_all add: staged_file_def drive_request_def js_eq_Nil)
  from success_source_fields [of "staged empty_fs" staged_file "[0x25, 0x50, 0x44, 0x46]"
      sample_env sample_pdf drive_request "js ''https://drive.google.com/file/d/abc/view''"
      200 "js ''OK''" "[0x25, 0x50, 0x44, 0x46]" sample_pdf]
    read fetched pdfParse_sample names rewritten
  show ?thesis by simp
qed

text \<open>
  C8 as stated fails for a request body whose \<open>filename\<close> is the empty string: the
  response does not echo it but says \<open>Unknown\<close>.
\<close>

theorem empty_filename_reported_unknown:
  "filename (drive_request\<lparr>filename := Some []\<rparr>) = Some [] \<and>
   map (\<lambda>r. (status r, field (body r) ''filename''))
     (sent_responses (extract_text_url_handler sample_env (drive_request\<lparr>filename := Some []\<rparr>))) =
     [(200, Some (JStr (js ''Unknown'')))]"
  by (simp add: extract_text_url_handler_responses drive_request_def js_eq_Nil
      convert_drive_sample fetch_drive_sample response_ok_def pdfParse_sample
      extract_text_url_result_def field_JObj js_eq_iff or_default_def)

section \<open>C9: the HMAC route is a function of data and secret\<close>

text \<open>
  C9. Two calls of POST /generate-hmac with the same request body answer with the same
  status and the same \<open>signature\<close>, whatever else differs between them (the clock
  behind \<open>generatedAt\<close>, for one), as long as HMAC-SHA512 itself is the same
  function. With a non-empty \<open>data\<close> and a non-empty \<open>secret\<close> the answer is 200 and
  the signature is the hex digest of HMAC-SHA512 under that secret over that data. A
  call does nothing but send its one response: it removes no file and fetches nothing.
  A request without \<open>secret\<close> is answered 400.
\<close>

theorem hmac_deterministic:
  "(hmac_sha512_hex e1 = hmac_sha512_hex e2 \<longrightarrow>
      map (\<lambda>r. (status r, field (body r) ''signature''))
        (sent_responses (generate_hmac_handler e2 req_body)) =
      map (\<lambda>r. (status r, field (body r) ''signature''))
        (sent_responses (generate_hmac_handler e1 req_body))) \<and>
   (data req_body = Some d \<and> d \<noteq> [] \<and> secret req_body = Some k \<and> k \<noteq> [] \<longrightarrow>
      map (\<lambda>r. (status r, field (body r) ''signature''))
        (sent_responses (generate_hmac_handler e1 req_body)) =
        [(200, Some (JStr (hmac_sha512_hex e1 k d)))]) \<and>
   (\<exists>r. generate_hmac_handler e1 req_body = [Sent r]) \<and>
   (\<not> truthy (secret req_body) \<longrightarrow>
      map status (sent_responses (generate_hmac_handler e1 req_body)) = [400])"
proof (intro conjI impI)
  assume "hmac_sha512_hex e1 = hmac_sha512_hex e2"
  then show "map (\<lambda>r. (status r, field (body r) ''signature''))
        (sent_responses (generate_hmac_handler e2 req_body)) =
      map (\<lambda>r. (status r, field (body r) ''signature''))
        (sent_responses (generate_hmac_handler e1 req_body))"
    by (cases "data req_body"; cases "secret req_body")
       (simp_all add: generate_hmac_handler_def missing_data_response_def missing_secret_response_def res_json_def field_JObj js_eq_iff)
next
  assume "data req_body = Some d \<and> d \<noteq> [] \<and> secret req_body = Some k \<and> k \<noteq> []"
  then show "map (\<lambda>r. (status r, field (body r) ''signature''))
        (sent_responses (generate_hmac_handler e1 req_body)) =
        [(200, Some (JStr (hmac_sha512_hex e1 k d)))]"
    by (simp add: generate_hmac_handler_def missing_data_response_def missing_secret_response_def res_json_def field_JObj js_eq_iff)
next
  show "\<exists>r. generate_hmac_handler e1 req_body = [Sent r]"
    by (cases "data req_body"; cases "secret req_body")
       (simp_all add: generate_hmac_handler_def missing_data_response_def missing_secret_response_def res_json_def)
next
  assume "\<not> truthy (secret req_body)"
  then show "map status (sent_responses (generate_hmac_handler e1 req_body)) = [400]"
    by (auto simp: generate_hmac_handler_def missing_data_response_def missing_secret_response_def truthy_def res_json_def split: option.splits)
qed

theorem hmac_deterministic_witness:
  "map (\<lambda>r. (status r, field (body r) ''signature''))
     (sent_responses (generate_hmac_handler sample_env hello_request)) =
     [(200, Some (JStr (js ''mac:key:Hello, World!'')))] \<and>
   map (\<lambda>r. (status r, field (body r) ''signature''))
     (sent_responses
        (generate_hmac_handler (sample_env\<lparr>now := js ''2025-06-30T12:00:00.000Z''\<rparr>)
           hello_request)) =
     [(200, Some (JStr (js ''mac:key:Hello, World!'')))] \<and>
   map status
     (sent_responses (generate_hmac_handler sample_env (hello_request\<lparr>secret := None\<rparr>))) =
     [400]"
proof -
  let ?later = "sample_env\<lparr>now := js ''2025-06-30T12:00:00.000Z''\<rparr>"
  let ?sig = "\<lambda>e. map (\<lambda>r. (status r, field (body r) ''signature''))
      (sent_responses (generate_hmac_handler e hello_request))"
  have same_mac: "hmac_sha512_hex sample_env = hmac_sha512_hex ?later" by simp
  have given: "data hello_request = Some (js ''Hello, World!'') \<and> js ''Hello, World!'' \<noteq> [] \<and>
      secret hello_request = Some (js ''key'') \<and> js ''key'' \<noteq> []"
    by (simp add: hello_request_def js_eq_Nil)
  have mac: "hmac_sha512_hex sample_env (js ''key'') (js ''Hello, World!'') =
      js ''mac:key:Hello, World!''"
    by (simp add: sample_env_def js_def)
  have missing: "\<not> truthy (secret (hello_request\<lparr>secret := None\<rparr>))"
    by (simp add: truthy_def)
  note run = hmac_deterministic [of sample_env ?later hello_request
      "js ''Hello, World!''" "js ''key''"]
  from run have "hmac_sha512_hex sample_env = hmac_sha512_hex ?later \<longrightarrow>
      ?sig ?later = ?sig sample_env"
    by (rule conjunct1)
  from this same_mac have again: "?sig ?later = ?sig sample_env" by (rule mp)
  from run have "data hello_request = Some (js ''Hello, World!'') \<and> js ''Hello, World!'' \<noteq> [] \<and>
      secret hello_request = Some (js ''key'') \<and> js ''key'' \<noteq> [] \<longrightarrow>
      ?sig sample_env =
        [(200, Some (JStr (hmac_sha512_hex sample_env (js ''key'') (js ''Hello, World!''))))]"
    by (rule conjunct2 [THEN conjunct1])
  from this given have
    "?sig sample_env =
        [(200, Some (JStr (hmac_sha512_hex sample_env (js ''key'') (js ''Hello, World!''))))]"
    by (rule mp)
  then have first: "?sig sample_env = [(200, Some (JStr (js ''mac:key:Hello, World!'')))]"
    unfolding mac .
  from again first have second: "?sig ?later = [(200, Some (JStr (js ''mac:key:Hello, World!'')))]"
    by (rule trans)
  note stop = hmac_deterministic [of sample_env sample_env "hello_request\<lparr>secret := None\<rparr>"
      "[]" "[]"]
  from stop have "\<not> truthy (secret (hello_request\<lparr>secret := None\<rparr>)) \<longrightarrow>
      map status
        (sent_responses (generate_hmac_handler sample_env (hello_request\<lparr>secret := None\<rparr>))) =
      [400]"
    by (rule conjunct2 [THEN conjunct2, THEN conjunct2])
  from this missing have third: "map status
     (sent_responses (generate_hmac_handler sample_env (hello_request\<lparr>secret := None\<rparr>))) =
     [400]"
    by (rule mp)
  from first second third show ?thesis by (intro conjI)
qed

section \<open>C10: empty strings on the HMAC route\<close>

text \<open>
  C10, as the code has it. Presence is tested by truthiness, so an empty string counts
  as missing, and \<open>data\<close> is tested first: an empty \<open>data\<close> is answered 400 "Missing
  data parameter"; an empty \<open>secret\<close> is answered 400 "Missing secret parameter" when
  \<open>data\<close> is non-empty, and 400 "Missing data parameter" when \<open>data\<close> is missing or
  empty as well; whenever either of the two is the empty string the answer is 400. A
  200 response is sent only for a non-empty \<open>data\<close> signed under a non-empty
  \<open>secret\<close>.
\<close>

theorem hmac_rejects_empty_strings:
  \<open>(data req_body = Some [] \<longrightarrow>
      generate_hmac_handler e req_body =
        [res_json 400 (JObj
           [(js ''error'', JStr (js ''Missing data parameter'')),
            (js ''message'', JStr (js ''Please provide a "data" field with the data to sign'')),
            (js ''success'', JBool False)])]) \<and>
   (truthy (data req_body) \<and> secret req_body = Some [] \<longrightarrow>
      generate_hmac_handler e req_body =
        [res_json 400 (JObj
           [(js ''error'', JStr (js ''Missing secret parameter'')),
            (js ''message'', JStr (js ''Please provide a "secret" field with the signing key'')),
            (js ''success'', JBool False)])]) \<and>
   (\<not> truthy (data req_body) \<and> secret req_body = Some [] \<longrightarrow>
      generate_hmac_handler e req_body =
        [res_json 400 (JObj
           [(js ''error'', JStr (js ''Missing data parameter'')),
            (js ''message'', JStr (js ''Please provide a "data" field with the data to sign'')),
            (js ''success'', JBool False)])]) \<and>
   (data req_body = Some [] \<or> secret req_body = Some [] \<longrightarrow>
      map status (sent_responses (generate_hmac_handler e req_body)) = [400]) \<and>
   (r \<in> set (sent_responses (generate_hmac_handler e req_body)) \<and> status r = 200 \<longrightarrow>
      (\<exists>d k. data req_body = Some d \<and> d \<noteq> [] \<and> secret req_body = Some k \<and> k \<noteq> [] \<and>
             field (body r) ''signature'' = Some (JStr (hmac_sha512_hex e k d))))\<close>
proof (intro conjI impI)
  assume "data req_body = Some []"
  then show \<open>generate_hmac_handler e req_body =
        [res_json 400 (JObj
           [(js ''error'', JStr (js ''Missing data parameter'')),
            (js ''message'', JStr (js ''Please provide a "data" field with the data to sign'')),
            (js ''success'', JBool False)])]\<close>
    by (simp add: generate_hmac_handler_def missing_data_response_def missing_secret_response_def)
next
  assume "truthy (data req_body) \<and> secret req_body = Some []"
  then show \<open>generate_hmac_handler e req_body =
        [res_json 400 (JObj
           [(js ''error'', JStr (js ''Missing secret parameter'')),
            (js ''message'', JStr (js ''Please provide a "secret" field with the signing key'')),
            (js ''success'', JBool False)])]\<close>
    by (auto simp: generate_hmac_handler_def missing_data_response_def missing_secret_response_def truthy_def split: option.splits)
next
  assume "\<not> truthy (data req_body) \<and> secret req_body = Some []"
  then show \<open>generate_hmac_handler e req_body =
        [res_json 400 (JObj
           [(js ''error'', JStr (js ''Missing data parameter'')),
            (js ''message'', JStr (js ''Please provide a "data" field with the data to sign'')),
            (js ''success'', JBool False)])]\<close>
    by (auto simp: generate_hmac_handler_def missing_data_response_def truthy_def
        split: option.splits)
next
  assume "data req_body = Some [] \<or> secret req_body = Some []"
  then show "map status (sent_responses (generate_hmac_handler e req_body)) = [400]"
    by (auto simp: generate_hmac_handler_def missing_data_response_def missing_secret_response_def res_json_def split: option.splits)
next
  assume "r \<in> set (sent_responses (generate_hmac_handler e req_body)) \<and> status r = 200"
  then show "\<exists>d k. data req_body = Some d \<and> d \<noteq> [] \<and> secret req_body = Some k \<and> k \<noteq> [] \<and>
             field (body r) ''signature'' = Some (JStr (hmac_sha512_hex e k d))"
    by (cases "data req_body"; cases "secret req_body")
       (auto simp: generate_hmac_handler_def missing_data_response_def missing_secret_response_def truthy_def res_json_def field_JObj js_eq_iff
          split: if_splits)
qed

theorem hmac_rejects_empty_strings_witness:
  \<open>generate_hmac_handler sample_env (hello_request\<lparr>data := Some []\<rparr>) =
     [res_json 400 (JObj
        [(js ''error'', JStr (js ''Missing data parameter'')),
         (js ''message'', JStr (js ''Please provide a "data" field with the data to sign'')),
         (js ''success'', JBool False)])] \<and>
   generate_hmac_handler sample_env (hello_request\<lparr>secret := Some []\<rparr>) =
     [res_json 400 (JObj
        [(js ''error'', JStr (js ''Missing secret parameter'')),
         (js ''message'', JStr (js ''Please provide a "secret" field with the signing key'')),
         (js ''success'', JBool False)])] \<and>
   generate_hmac_handler sample_env (hello_request\<lparr>data := Some [], secret := Some []\<rparr>) =
     [res_json 400 (JObj
        [(js ''error'', JStr (js ''Missing data parameter'')),
         (js ''message'', JStr (js ''Please provide a "data" field with the data to sign'')),
         (js ''success'', JBool False)])] \<and>
   map status
     (sent_responses (generate_hmac_handler sample_env (hello_request\<lparr>secret := Some []\<rparr>))) =
     [400] \<and>
   sent_responses (generate_hmac_handler sample_env hello_request) \<noteq> [] \<and>
   data hello_request \<noteq> Some [] \<and> secret hello_request \<noteq> Some []\<close>
proof -
  have no_data: "data (hello_request\<lparr>data := Some []\<rparr>) = Some []" by simp
  have no_key: "truthy (data (hello_request\<lparr>secret := Some []\<rparr>)) \<and>
      secret (hello_request\<lparr>secret := Some []\<rparr>) = Some []"
    by (simp add: truthy_def hello_request_def js_eq_Nil)
  have neither: "\<not> truthy (data (hello_request\<lparr>data := Some [], secret := Some []\<rparr>)) \<and>
      secret (hello_request\<lparr>data := Some [], secret := Some []\<rparr>) = Some []"
    by (simp add: truthy_def)
  obtain r where sent: "generate_hmac_handler sample_env hello_request = [Sent r]"
    and ok: "status r = 200"
    by (simp add: generate_hmac_handler_def missing_data_response_def missing_secret_response_def truthy_def hello_request_def js_eq_Nil res_json_def)
  then have mem: "r \<in> set (sent_responses (generate_hmac_handler sample_env hello_request)) \<and>
      status r = 200"
    by simp
  from hmac_rejects_empty_strings [of "hello_request\<lparr>data := Some []\<rparr>" sample_env] no_data
  have 1: \<open>generate_hmac_handler sample_env (hello_request\<lparr>data := Some []\<rparr>) =
     [res_json 400 (JObj
        [(js ''error'', JStr (js ''Missing data parameter'')),
         (js ''message'', JStr (js ''Please provide a "data" field with the data to sign'')),
         (js ''success'', JBool False)])]\<close>
    by blast
  from hmac_rejects_empty_strings [of "hello_request\<lparr>secret := Some []\<rparr>" sample_env] no_key
  have 2: \<open>generate_hmac_handler sample_env (hello_request\<lparr>secret := Some []\<rparr>) =
     [res_json 400 (JObj
        [(js ''error'', JStr (js ''Missing secret parameter'')),
         (js ''message'', JStr (js ''Please provide a "secret" field with the signing key'')),
         (js ''success'', JBool False)])]\<close>
    and 3: "map status
     (sent_responses (generate_hmac_handler sample_env (hello_request\<lparr>secret := Some []\<rparr>))) =
     [400]"
    by blast+
  note both = hmac_rejects_empty_strings
    [of "hello_request\<lparr>data := Some [], secret := Some []\<rparr>" sample_env]
  from both have \<open>\<not> truthy (data (hello_request\<lparr>data := Some [], secret := Some []\<rparr>)) \<and>
      secret (hello_request\<lparr>data := Some [], secret := Some []\<rparr>) = Some [] \<longrightarrow>
      generate_hmac_handler sample_env (hello_request\<lparr>data := Some [], secret := Some []\<rparr>) =
        [res_json 400 (JObj
           [(js ''error'', JStr (js ''Missing data parameter'')),
            (js ''message'', JStr (js ''Please provide a "data" field with the data to sign'')),
            (js ''success'', JBool False)])]\<close>
    by (rule conjunct2 [THEN conjunct2, THEN conjunct1])
  from this neither
  have 6: \<open>generate_hmac_handler sample_env (hello_request\<lparr>data := Some [], secret := Some []\<rparr>) =
     [res_json 400 (JObj
        [(js ''error'', JStr (js ''Missing data parameter'')),
         (js ''message'', JStr (js ''Please provide a "data" field with the data to sign'')),
         (js ''success'', JBool False)])]\<close>
    by (rule mp)
  from hmac_rejects_empty_strings [of hello_request sample_env r] mem
  obtain d k where "data hello_request = Some d" "d \<noteq> []" "secret hello_request = Some k" "k \<noteq> []"
    by blast
  then have 4: "data hello_request \<noteq> Some [] \<and> secret hello_request \<noteq> Some []" by auto
  from sent have 5: "sent_responses (generate_hmac_handler sample_env hello_request) \<noteq> []"
    by simp
  from 1 2 6 3 5 4 show ?thesis by (intro conjI) simp_all
qed

text \<open>
  C10 as stated fails for a request whose \<open>secret\<close> is the empty string and which has
  no \<open>data\<close>: the answer is the error for the missing \<open>data\<close>, not the one for the
  empty \<open>secret\<close>.
\<close>

theorem empty_secret_reported_as_missing_data:
  \<open>data secret_only_request = None \<and>
   secret secret_only_request = Some [] \<and>
   generate_hmac_handler sample_env secret_only_request =
     [res_json 400 (JObj
        [(js ''error'', JStr (js ''Missing data parameter'')),
         (js ''message'', JStr (js ''Please provide a "data" field with the data to sign'')),
         (js ''success'', JBool False)])]\<close>
  by (simp add: secret_only_request_def generate_hmac_handler_def missing_data_response_def)

end
